theory Spec2Isabelle
  imports Main
begin

section \<open>JavaScript values, errors and the execution collaborator\<close>

text \<open>
  The values that flow through the library: raw row cells, entity fields, bound
  parameters. A number is a double; the model has the doubles whose value is an integer
  (\<open>JNum\<close>: identifiers, counts, limits, offsets and epoch milliseconds are integers in
  the code under study), the two infinities (\<open>JInfinity True\<close> is the positive one) and
  NaN; the two zeros are one. A \<open>Date\<close> is its epoch time in milliseconds, \<open>None\<close>
  standing for an Invalid Date; \<open>JClass\<close> is an entity class object (the value of
  \<open>typeof Entity\<close>), identified by its \<open>EntityName\<close>.
\<close>

datatype jsval =
    JUndefined
  | JNull
  | JBool bool
  | JNum int
  | JStr string
  | JArr "jsval list"
  | JObj "(string \<times> jsval) list"
  | JDate "int option"
  | JBuffer "nat list"
  | JClass string
  | JInfinity bool
  | JNaN

type_synonym props = "(string \<times> jsval) list"

datatype error =
    Error string
  | TypeError string
  | EntityValidationError string
  | ExecutionError string

section \<open>Condition expressions (utils/types)\<close>

datatype WhereOperator = OpEq | OpNe | OpGt | OpLt | OpGe | OpLe | OpLIKE | OpIN | OpIS

datatype Connector = ConnAND | ConnOR

datatype Where =
    WhereCondition string jsval "WhereOperator option"
  | WhereComposite Connector "Where list"

fun operator_text :: "WhereOperator \<Rightarrow> string" where
  "operator_text OpEq = ''=''"
| "operator_text OpNe = ''!=''"
| "operator_text OpGt = ''>''"
| "operator_text OpLt = ''<''"
| "operator_text OpGe = ''>=''"
| "operator_text OpLe = ''<=''"
| "operator_text OpLIKE = ''LIKE''"
| "operator_text OpIN = ''IN''"
| "operator_text OpIS = ''IS''"

fun connector_text :: "Connector \<Rightarrow> string" where
  "connector_text ConnAND = ''AND''"
| "connector_text ConnOR = ''OR''"

text \<open>\<open>Array.prototype.join\<close> on an array of strings.\<close>

fun join_str :: "string \<Rightarrow> string list \<Rightarrow> string" where
  "join_str sep [] = []"
| "join_str sep [x] = x"
| "join_str sep (x # y # ys) = x @ sep @ join_str sep (y # ys)"

section \<open>The condition compiler (GenericDAO.buildWhereClause)\<close>

text \<open>
  \<open>buildWhereClause(where, params, EntityName = this.entityName)\<close>. The first argument of
  the model is \<open>this.entityName\<close>; the optional third parameter of the source is an
  \<open>option\<close>, \<open>None\<close> when the caller omits it. \<open>params.push\<close> mutates the caller's array,
  so the parameter list is threaded through and returned. The recursive call inside
  \<open>prepositions.map\<close> passes two arguments only, as the source does.
\<close>

fun buildWhereClause :: "string \<Rightarrow> Where \<Rightarrow> jsval list \<Rightarrow> string option \<Rightarrow> string \<times> jsval list"
  and buildWhereClause_map :: "string \<Rightarrow> Where list \<Rightarrow> jsval list \<Rightarrow> string list \<times> jsval list"
where
  "buildWhereClause this_entityName (WhereComposite conn preps) params EntityName =
     (case buildWhereClause_map this_entityName preps params of
        (clauses, params') \<Rightarrow>
          (''('' @ join_str ('' '' @ connector_text conn @ '' '') clauses @ '')'', params'))"
| "buildWhereClause this_entityName (WhereCondition fld val opr) params EntityName =
     (let operator = (case opr of None \<Rightarrow> OpEq | Some o' \<Rightarrow> o');
          table = (case EntityName of None \<Rightarrow> this_entityName | Some t \<Rightarrow> t);
          params' = params @ [JStr table, JStr fld, val]
      in (if operator \<noteq> OpIN
          then ''??.?? '' @ operator_text operator @ '' ?''
          else ''??.?? '' @ operator_text operator @ '' (?)'', params'))"
| "buildWhereClause_map this_entityName [] params = ([], params)"
| "buildWhereClause_map this_entityName (prep # preps) params =
     (case buildWhereClause this_entityName prep params None of
        (clause, params1) \<Rightarrow>
          (case buildWhereClause_map this_entityName preps params1 of
             (clauses, params2) \<Rightarrow> (clause # clauses, params2)))"

subsection \<open>Placeholders of the execution contract\<close>

text \<open>
  The execution collaborator substitutes parameters for placeholders: a maximal run of
  question marks of length one (\<open>?\<close>, a value) or two (\<open>??\<close>, an identifier) consumes
  one parameter; longer runs are left alone. \<open>placeholders_from run s\<close> scans \<open>s\<close> with
  \<open>run\<close> question marks already read.
\<close>

fun placeholders_from :: "nat \<Rightarrow> string \<Rightarrow> nat" where
  "placeholders_from run [] = (if run = 1 \<or> run = 2 then 1 else 0)"
| "placeholders_from run (c # cs) =
     (if c = CHR ''?'' then placeholders_from (Suc run) cs
      else (if run = 1 \<or> run = 2 then 1 else 0) + placeholders_from 0 cs)"

definition placeholder_count :: "string \<Rightarrow> nat" where
  "placeholder_count sql = placeholders_from 0 sql"

text \<open>
  The comparison leaves of a condition tree in pre-order, left to right, following the
  words of the specification.
\<close>

fun comparisons :: "Where \<Rightarrow> (string \<times> jsval) list" where
  "comparisons (WhereCondition fld val opr) = [(fld, val)]"
| "comparisons (WhereComposite conn preps) = concat (map comparisons preps)"

definition leaf_params :: "string \<Rightarrow> string \<times> jsval \<Rightarrow> jsval list" where
  "leaf_params table leaf = [JStr table, JStr (fst leaf), snd leaf]"

text \<open>
  The parameters a condition contributes when its root is compiled against \<open>table\<close>
  (the override if one is given, the DAO's table otherwise): a root comparison is
  qualified with \<open>table\<close>, the comparisons below a composite with the DAO's own table.
\<close>

fun where_params :: "string \<Rightarrow> string option \<Rightarrow> Where \<Rightarrow> jsval list" where
  "where_params this_entityName EntityName (WhereCondition fld val opr) =
     leaf_params (case EntityName of None \<Rightarrow> this_entityName | Some t \<Rightarrow> t) (fld, val)"
| "where_params this_entityName EntityName (WhereComposite conn preps) =
     concat (map (leaf_params this_entityName) (concat (map comparisons preps)))"

text \<open>
  The table name that qualifies each comparison leaf, in pre-order: the table the
  condition is compiled against for a root comparison, the DAO's own table for every
  leaf below a composite.
\<close>

fun qualifiers :: "string \<Rightarrow> string option \<Rightarrow> Where \<Rightarrow> string list" where
  "qualifiers this_entityName EntityName (WhereCondition fld val opr) =
     [case EntityName of None \<Rightarrow> this_entityName | Some t \<Rightarrow> t]"
| "qualifiers this_entityName EntityName (WhereComposite conn preps) =
     replicate (length (concat (map comparisons preps))) this_entityName"

section \<open>Numbers\<close>

text \<open>
  The arithmetic of the runtime on integer-valued doubles. An operation computes the
  exact result and rounds it to the nearest double, ties to the even significand: a
  double has 53 significant bits, and a magnitude that rounds to \<open>2^1024\<close> or more is
  an infinity. \<open>to_double x\<close> is the double nearest to the integer \<open>x\<close>; an integer
  is a number of the runtime when \<open>to_double x = Num x\<close>.
\<close>

datatype number = Num int | PosInfinity | NegInfinity | NaN

function bit_length :: "int \<Rightarrow> nat" where
  "bit_length n = (if n \<le> 0 then 0 else Suc (bit_length (n div 2)))"
  by pat_completeness auto
termination
  by (relation "measure nat") auto

declare bit_length.simps [simp del]

definition round_magnitude :: "int \<Rightarrow> int" where
  "round_magnitude m =
     (if bit_length m \<le> 53 then m
      else
        (let e = bit_length m - 53;
             q = m div 2 ^ e;
             r = m mod 2 ^ e;
             half = 2 ^ (e - 1)
         in (if r > half \<or> (r = half \<and> odd q) then q + 1 else q) * 2 ^ e))"

definition to_double :: "int \<Rightarrow> number" where
  "to_double x =
     (let m = round_magnitude (abs x)
      in if m \<ge> 2 ^ 1024 then (if x < 0 then NegInfinity else PosInfinity)
         else Num (if x < 0 then - m else m))"

text \<open>\<open>a - b\<close> and \<open>a * b\<close> on numbers.\<close>

fun js_sub :: "number \<Rightarrow> number \<Rightarrow> number" where
  "js_sub NaN y = NaN"
| "js_sub x NaN = NaN"
| "js_sub (Num a) (Num b) = to_double (a - b)"
| "js_sub PosInfinity PosInfinity = NaN"
| "js_sub NegInfinity NegInfinity = NaN"
| "js_sub PosInfinity y = PosInfinity"
| "js_sub NegInfinity y = NegInfinity"
| "js_sub (Num a) PosInfinity = NegInfinity"
| "js_sub (Num a) NegInfinity = PosInfinity"

fun is_negative :: "number \<Rightarrow> bool" where
  "is_negative (Num n) = (n < 0)"
| "is_negative NegInfinity = True"
| "is_negative x = False"

fun js_mul :: "number \<Rightarrow> number \<Rightarrow> number" where
  "js_mul NaN y = NaN"
| "js_mul x NaN = NaN"
| "js_mul (Num a) (Num b) = to_double (a * b)"
| "js_mul x y =
     (if x = Num 0 \<or> y = Num 0 then NaN
      else if is_negative x = is_negative y then PosInfinity
      else NegInfinity)"

fun number_value :: "number \<Rightarrow> jsval" where
  "number_value (Num n) = JNum n"
| "number_value PosInfinity = JInfinity True"
| "number_value NegInfinity = JInfinity False"
| "number_value NaN = JNaN"

section \<open>Objects\<close>

text \<open>
  A plain object is the list of its own enumerable properties in insertion order, each
  key once (keys that are array indices, which JavaScript enumerates first, do not
  occur among column names). \<open>get_prop\<close> is \<open>obj[key]\<close>, \<open>has_prop\<close> is
  \<open>hasOwnProperty\<close> (and \<open>key in obj\<close> for the keys used here, none of which is
  inherited), \<open>set_prop\<close> is \<open>obj[key] = v\<close> and \<open>delete_prop\<close> is
  \<open>delete obj[key]\<close>.
\<close>

fun get_prop :: "props \<Rightarrow> string \<Rightarrow> jsval" where
  "get_prop [] key = JUndefined"
| "get_prop ((k, v) # ps) key = (if k = key then v else get_prop ps key)"

fun has_prop :: "props \<Rightarrow> string \<Rightarrow> bool" where
  "has_prop [] key = False"
| "has_prop ((k, v) # ps) key = (if k = key then True else has_prop ps key)"

fun set_prop :: "props \<Rightarrow> string \<Rightarrow> jsval \<Rightarrow> props" where
  "set_prop [] key val = [(key, val)]"
| "set_prop ((k, v) # ps) key val = (if k = key then (k, val) # ps else (k, v) # set_prop ps key val)"

fun delete_prop :: "props \<Rightarrow> string \<Rightarrow> props" where
  "delete_prop [] key = []"
| "delete_prop ((k, v) # ps) key = (if k = key then delete_prop ps key else (k, v) # delete_prop ps key)"

definition object_keys :: "props \<Rightarrow> string list" where
  "object_keys obj = map fst obj"

text \<open>
  \<open>obj[key] = v\<close> on an object that has no own property \<open>__proto__\<close>: under that key
  the assignment runs the setter inherited from \<open>Object.prototype\<close>, which creates no
  own property.
\<close>

definition plain_assign :: "props \<Rightarrow> string \<Rightarrow> jsval \<Rightarrow> props" where
  "plain_assign obj key val = (if key = ''__proto__'' then obj else set_prop obj key val)"

text \<open>\<open>typeof v === "object"\<close>, \<open>v instanceof Date\<close>, \<open>v instanceof Buffer\<close> and truthiness.\<close>

fun typeof_object :: "jsval \<Rightarrow> bool" where
  "typeof_object JNull = True"
| "typeof_object (JArr xs) = True"
| "typeof_object (JObj ps) = True"
| "typeof_object (JDate t) = True"
| "typeof_object (JBuffer bs) = True"
| "typeof_object v = False"

fun instanceof_Date :: "jsval \<Rightarrow> bool" where
  "instanceof_Date (JDate t) = True"
| "instanceof_Date v = False"

fun instanceof_Buffer :: "jsval \<Rightarrow> bool" where
  "instanceof_Buffer (JBuffer bs) = True"
| "instanceof_Buffer v = False"

fun truthy :: "jsval \<Rightarrow> bool" where
  "truthy JUndefined = False"
| "truthy JNull = False"
| "truthy (JBool b) = b"
| "truthy (JNum n) = (n \<noteq> 0)"
| "truthy (JStr s) = (s \<noteq> [])"
| "truthy JNaN = False"
| "truthy v = True"

section \<open>The runtime's built-ins\<close>

text \<open>
  \<open>JSON.parse\<close>, \<open>JSON.stringify\<close>, the \<open>Date\<close> constructor and \<open>Date.prototype.toISOString\<close>
  belong to the JavaScript runtime, not to the library; the entity code takes them as
  parameters. \<open>JSON_parse\<close> returns \<open>None\<close> where the built-in throws a SyntaxError;
  \<open>new_Date v\<close> is the time value of \<open>new Date(v)\<close>, \<open>None\<close> for an Invalid Date.
\<close>

record runtime =
  JSON_parse :: "string \<Rightarrow> jsval option"
  JSON_stringify :: "jsval \<Rightarrow> string"
  new_Date :: "jsval \<Rightarrow> int option"
  toISOString :: "int \<Rightarrow> string"

section \<open>Entity lifecycle (entity.model)\<close>

datatype EntityPropertyType = PT_JSON | PT_DATE

text \<open>The result of the \<open>validate\<close> hook: \<open>true\<close> or an error message.\<close>

datatype validation = Valid | Invalid string

text \<open>
  What a concrete entity class contributes: its table name, the conversion kind its
  decorators register per property (\<open>getPropertyType\<close>), and its \<open>validate\<close> override.
\<close>

record entity_class =
  EntityName :: string
  getPropertyType :: "string \<Rightarrow> EntityPropertyType option"
  validate :: "props \<Rightarrow> validation"

text \<open>
  \<open>new EntityValidationError(msg)\<close> calls \<open>super(msg ?? default)\<close>: only a missing
  message is replaced by the default text.
\<close>

definition default_validation_message :: string where
  "default_validation_message =
     ''The entity'' @ [CHR 0x27] @ ''s state failed the validation checks''"

definition new_EntityValidationError :: "string option \<Rightarrow> error" where
  "new_EntityValidationError msg =
     EntityValidationError (case msg of None \<Rightarrow> default_validation_message | Some m \<Rightarrow> m)"

fun message :: "error \<Rightarrow> string" where
  "message (Error m) = m"
| "message (TypeError m) = m"
| "message (EntityValidationError m) = m"
| "message (ExecutionError m) = m"

text \<open>The value \<open>init\<close> assigns for one property: the body of its loop.\<close>

definition init_value :: "runtime \<Rightarrow> EntityPropertyType option \<Rightarrow> jsval \<Rightarrow> jsval" where
  "init_value rt propertyType val =
     (case val of
        JStr s \<Rightarrow>
          (if propertyType = Some PT_JSON then
             (case JSON_parse rt s of
                None \<Rightarrow> val
              | Some parsed \<Rightarrow> if typeof_object parsed \<and> parsed \<noteq> JNull then parsed else val)
           else if propertyType = Some PT_DATE then
             (case new_Date rt val of
                None \<Rightarrow> val
              | Some t \<Rightarrow> JDate (Some t))
           else val)
      | _ \<Rightarrow> val)"

text \<open>
  An instance under construction is its own properties and its prototype: the one of
  its class, or whatever an assignment to \<open>__proto__\<close> has put in its place. That
  assignment runs the setter inherited from \<open>Object.prototype\<close>: an object or \<open>null\<close>
  becomes the prototype, any other value is ignored, and no own property is created.
\<close>

datatype prototype = ClassPrototype | Replaced jsval

fun is_Object :: "jsval \<Rightarrow> bool" where
  "is_Object (JArr xs) = True"
| "is_Object (JObj ps) = True"
| "is_Object (JDate t) = True"
| "is_Object (JBuffer bs) = True"
| "is_Object (JClass n) = True"
| "is_Object v = False"

text \<open>
  \<open>init\<close>: the loop over the own properties of \<open>attributes\<close>. \<open>getPropertyType\<close> finds
  the metadata of the class through the prototype chain of \<open>this\<close>, so it finds none
  once the prototype is replaced.
\<close>

definition replaces_prototype :: "jsval \<Rightarrow> bool" where
  "replaces_prototype v = (is_Object v \<or> v = JNull)"

fun init ::
  "runtime \<Rightarrow> entity_class \<Rightarrow> props \<Rightarrow> props \<times> prototype \<Rightarrow> props \<times> prototype" where
  "init rt cls [] this = this"
| "init rt cls ((prop, val) # attributes) (own, proto) =
     (let propertyType = (case proto of ClassPrototype \<Rightarrow> getPropertyType cls prop | Replaced p \<Rightarrow> None);
          finalValue = init_value rt propertyType val
      in init rt cls attributes
           (if prop = ''__proto__''
            then (own, if replaces_prototype finalValue then Replaced finalValue else proto)
            else (set_prop own prop finalValue, proto)))"

text \<open>
  \<open>this.validate()\<close>: an own property \<open>validate\<close>, assigned by \<open>init\<close>, shadows the
  method of the class, and a replaced prototype does not have that method. What is
  found then (a value of a row or of a parsed document, \<open>undefined\<close>, or a class, which
  cannot be called without \<open>new\<close>) cannot be called: a TypeError is thrown. The
  message about a class names it by its table here.
\<close>

definition not_a_function_message :: string where
  "not_a_function_message = ''this.validate is not a function''"

definition class_call_message :: "string \<Rightarrow> string" where
  "class_call_message n =
     ''Class constructor '' @ n @ '' cannot be invoked without '' @ [CHR 0x27] @ ''new'' @ [CHR 0x27]"

definition call_validate :: "entity_class \<Rightarrow> props \<times> prototype \<Rightarrow> error + validation" where
  "call_validate cls this =
     (if has_prop (fst this) ''validate'' then
        (case get_prop (fst this) ''validate'' of
           JClass n \<Rightarrow> Inl (TypeError (class_call_message n))
         | _ \<Rightarrow> Inl (TypeError not_a_function_message))
      else
        (case snd this of
           ClassPrototype \<Rightarrow> Inr (validate cls (fst this))
         | Replaced (JObj ps) \<Rightarrow>
             (case get_prop ps ''validate'' of
                JClass n \<Rightarrow> Inl (TypeError (class_call_message n))
              | _ \<Rightarrow> Inl (TypeError not_a_function_message))
         | Replaced p \<Rightarrow> Inl (TypeError not_a_function_message)))"

text \<open>
  The constructor: \<open>init\<close> on the fresh (empty) instance, then \<open>this.validate()\<close>;
  anything but \<open>true\<close> is thrown as an \<open>EntityValidationError\<close>.
\<close>

definition new_Entity :: "runtime \<Rightarrow> entity_class \<Rightarrow> props \<Rightarrow> error + props" where
  "new_Entity rt cls attributes =
     (let this = init rt cls attributes ([], ClassPrototype)
      in case call_validate cls this of
           Inl e \<Rightarrow> Inl e
         | Inr validationResult \<Rightarrow>
             (case validationResult of
                Valid \<Rightarrow> Inr (fst this)
              | Invalid msg \<Rightarrow> Inl (new_EntityValidationError (Some msg))))"

subsection \<open>Serialization\<close>

text \<open>\<open>String.prototype.replace("T", " ")\<close>: the first \<open>T\<close> only.\<close>

fun replace_T :: "string \<Rightarrow> string" where
  "replace_T [] = []"
| "replace_T (c # cs) = (if c = CHR ''T'' then CHR '' '' # cs else c # replace_T cs)"

text \<open>
  The value \<open>toDBRecord\<close> leaves in \<open>record[key]\<close> after one round of its loop (the
  value itself where the source assigns nothing).
\<close>

definition toDBRecord_value :: "runtime \<Rightarrow> EntityPropertyType option \<Rightarrow> jsval \<Rightarrow> jsval" where
  "toDBRecord_value rt propertyType val =
     (if val = JUndefined then JNull
      else if propertyType = Some PT_JSON then
        (if typeof_object val \<and> val \<noteq> JNull then JStr (JSON_stringify rt val) else val)
      else if propertyType = Some PT_DATE \<or> instanceof_Date val then
        (let dateObject = (case val of JDate t \<Rightarrow> t | _ \<Rightarrow> new_Date rt val)
         in case dateObject of
              None \<Rightarrow> val
            | Some t \<Rightarrow> JStr (replace_T (take 19 (toISOString rt t))))
      else if typeof_object val \<and> val \<noteq> JNull \<and> \<not> instanceof_Buffer val then
        JStr (JSON_stringify rt val)
      else val)"

text \<open>
  Objects live in a store, addressed by their index; \<open>{ ...this }\<close> allocates a new
  object. Every write of \<open>toDBRecord\<close> is a write to the store at the address it names:
  \<open>record[key] = ...\<close> and \<open>delete record._joins\<close>, both on the record. The source
  never writes into an object that a property refers to, so property values are held
  by value.
\<close>

type_synonym heap = "props list"

definition alloc :: "heap \<Rightarrow> props \<Rightarrow> nat \<times> heap" where
  "alloc h obj = (length h, h @ [obj])"

definition heap_set :: "heap \<Rightarrow> nat \<Rightarrow> string \<Rightarrow> jsval \<Rightarrow> heap" where
  "heap_set h a key val = h[a := set_prop (h ! a) key val]"

definition heap_delete :: "heap \<Rightarrow> nat \<Rightarrow> string \<Rightarrow> heap" where
  "heap_delete h a key = h[a := delete_prop (h ! a) key]"

fun toDBRecord_loop :: "runtime \<Rightarrow> entity_class \<Rightarrow> nat \<Rightarrow> string list \<Rightarrow> heap \<Rightarrow> heap" where
  "toDBRecord_loop rt cls record [] h = h"
| "toDBRecord_loop rt cls record (key # keys) h =
     toDBRecord_loop rt cls record keys
       (heap_set h record key
          (toDBRecord_value rt (getPropertyType cls key) (get_prop (h ! record) key)))"

definition toDBRecord :: "runtime \<Rightarrow> entity_class \<Rightarrow> heap \<Rightarrow> nat \<Rightarrow> nat \<times> heap" where
  "toDBRecord rt cls h this =
     (case alloc h (h ! this) of
        (record, h1) \<Rightarrow>
          (let h2 = toDBRecord_loop rt cls record (object_keys (h1 ! record)) h1;
               h3 = heap_delete h2 record ''_joins''
           in (record, h3)))"

text \<open>The record \<open>entity.toDBRecord()\<close> returns, for an entity given by its properties.\<close>

definition toDBRecord_of :: "runtime \<Rightarrow> entity_class \<Rightarrow> props \<Rightarrow> props" where
  "toDBRecord_of rt cls entity = (case toDBRecord rt cls [entity] 0 of (record, h) \<Rightarrow> h ! record)"

text \<open>The contents of the record object after the loop has visited the given keys.\<close>

fun toDBRecord_fields :: "runtime \<Rightarrow> entity_class \<Rightarrow> string list \<Rightarrow> props \<Rightarrow> props" where
  "toDBRecord_fields rt cls [] obj = obj"
| "toDBRecord_fields rt cls (key # keys) obj =
     toDBRecord_fields rt cls keys
       (set_prop obj key (toDBRecord_value rt (getPropertyType cls key) (get_prop obj key)))"

section \<open>The execution collaborator\<close>

text \<open>
  \<open>connection.query(sql, params)\<close> resolves to a pair whose first component is either
  an array of row objects or a result header object (\<open>insertId\<close>, \<open>affectedRows\<close>, ...),
  or it rejects. The database is a state of an arbitrary type that each call may
  change; every call is recorded, in order, in a trace.
\<close>

datatype reply = Rows "props list" | Header props | Rejected error

type_synonym call = "string \<times> jsval list"

type_synonym 'db connection = "'db \<Rightarrow> string \<Rightarrow> jsval list \<Rightarrow> reply \<times> 'db"

type_synonym 'db world = "'db \<times> call list"

definition connection_query ::
  "'db connection \<Rightarrow> string \<Rightarrow> jsval list \<Rightarrow> 'db world \<Rightarrow> reply \<times> 'db world" where
  "connection_query conn sql params w =
     (case conn (fst w) sql params of
        (r, db') \<Rightarrow> (r, (db', snd w @ [(sql, params)])))"

section \<open>Query options (utils/types)\<close>

datatype Direction = ASC | DESC

fun direction_text :: "Direction \<Rightarrow> string" where
  "direction_text ASC = ''ASC''"
| "direction_text DESC = ''DESC''"

datatype JoinType = LEFT | RIGHT | INNER

fun join_type_text :: "JoinType \<Rightarrow> string" where
  "join_type_text LEFT = ''LEFT''"
| "join_type_text RIGHT = ''RIGHT''"
| "join_type_text INNER = ''INNER''"

text \<open>Entity classes in options appear through their \<open>EntityName\<close>.\<close>

record OrderBy =
  ob_table :: "string option"
  ob_field :: string
  ob_direction :: Direction

record JoinWhere =
  targetTable :: "string option"
  jw_where :: Where

record Join =
  leftTable :: "string option"
  rightTable :: string
  on_left :: string
  on_right :: string
  j_fields :: "string list option"
  j_type :: "JoinType option"
  j_where :: "JoinWhere option"
  j_orderBy :: "OrderBy list option"

record Options =
  joins :: "Join list option"
  limit :: "number option"
  offset :: "number option"
  orderBy :: "OrderBy list option"

record SelectOptions = Options +
  sel_fields :: "string list option"

section \<open>The data access object (GenericDAO)\<close>

record 'db GenericDAO =
  connection :: "'db connection"
  entityName :: string
  EntityClass :: entity_class

text \<open>A method of the DAO returns or throws, and leaves a new world behind.\<close>

type_synonym ('a, 'db) dao_result = "(error + 'a) \<times> 'db world"

text \<open>\<open>rows.map((row) => new this.EntityClass(row))\<close>: the first throw ends the map.\<close>

fun map_throwing :: "('a \<Rightarrow> error + 'b) \<Rightarrow> 'a list \<Rightarrow> error + 'b list" where
  "map_throwing f [] = Inr []"
| "map_throwing f (x # xs) =
     (case f x of
        Inl e \<Rightarrow> Inl e
      | Inr y \<Rightarrow> (case map_throwing f xs of Inl e \<Rightarrow> Inl e | Inr ys \<Rightarrow> Inr (y # ys)))"

subsection \<open>selectWhere: building the statement\<close>

definition select_fields :: "string \<Rightarrow> string list \<Rightarrow> string \<times> jsval list" where
  "select_fields this_entityName flds =
     (if length flds = 0 then (''SELECT '' @ this_entityName @ ''.*'', [])
      else (''SELECT '' @ join_str '', '' (map (\<lambda>field. ''??.??'') flds),
            concat (map (\<lambda>field. [JStr this_entityName, JStr field]) flds)))"

definition join_select_fields :: "Join \<Rightarrow> string" where
  "join_select_fields join =
     (case j_fields join of
        None \<Rightarrow> []
      | Some fs \<Rightarrow>
          join_str '', ''
            (map (\<lambda>field. rightTable join @ ''.'' @ field @ '' AS '' @ rightTable join @ ''_'' @ field) fs))"

fun add_join_fields :: "Join list \<Rightarrow> string \<Rightarrow> string" where
  "add_join_fields [] query = query"
| "add_join_fields (join # js) query =
     add_join_fields js
       (if join_select_fields join \<noteq> [] then query @ '', '' @ join_select_fields join else query)"

fun add_joins :: "string \<Rightarrow> Join list \<Rightarrow> string \<times> jsval list \<Rightarrow> string \<times> jsval list" where
  "add_joins this_entityName [] qp = qp"
| "add_joins this_entityName (join # js) qp =
     add_joins this_entityName js
       (fst qp @ '' '' @ join_type_text (case j_type join of None \<Rightarrow> LEFT | Some t \<Rightarrow> t)
          @ '' JOIN ?? ON ?? = ??'',
        snd qp @
          [JStr (rightTable join),
           JStr ((case leftTable join of None \<Rightarrow> this_entityName | Some l \<Rightarrow> l) @ ''.'' @ on_left join),
           JStr (rightTable join @ ''.'' @ on_right join)])"

fun add_join_wheres :: "string \<Rightarrow> Join list \<Rightarrow> string \<times> jsval list \<Rightarrow> string \<times> jsval list" where
  "add_join_wheres this_entityName [] qp = qp"
| "add_join_wheres this_entityName (join # js) qp =
     add_join_wheres this_entityName js
       (case j_where join of
          None \<Rightarrow> qp
        | Some jw \<Rightarrow>
            (case buildWhereClause this_entityName (jw_where jw) (snd qp)
                    (Some (case targetTable jw of None \<Rightarrow> rightTable join | Some t \<Rightarrow> t)) of
               (clause, params') \<Rightarrow> (fst qp @ '' AND '' @ clause, params')))"

text \<open>The loops over \<open>orderBy\<close> carry the query, the parameters and \<open>countOrderBy\<close>.\<close>

fun add_order_items ::
  "string \<Rightarrow> OrderBy list \<Rightarrow> string \<times> jsval list \<times> nat \<Rightarrow> string \<times> jsval list \<times> nat" where
  "add_order_items this_entityName [] st = st"
| "add_order_items this_entityName (order # os) (query, params, countOrderBy) =
     add_order_items this_entityName os
       ((if countOrderBy > 0 then query @ '', '' else query)
          @ '' ??.?? '' @ direction_text (ob_direction order),
        params @ [JStr this_entityName, JStr (ob_field order)],
        Suc countOrderBy)"

text \<open>\<open>String.prototype.includes\<close>, by scanning for the pattern at every position.\<close>

fun starts_with :: "string \<Rightarrow> string \<Rightarrow> bool" where
  "starts_with s [] = True"
| "starts_with [] (p # ps) = False"
| "starts_with (c # cs) (p # ps) = (c = p \<and> starts_with cs ps)"

fun str_includes :: "string \<Rightarrow> string \<Rightarrow> bool" where
  "str_includes [] pat = starts_with [] pat"
| "str_includes (c # cs) pat = (starts_with (c # cs) pat \<or> str_includes cs pat)"

fun add_join_order_items ::
  "Join \<Rightarrow> OrderBy list \<Rightarrow> string \<times> jsval list \<times> nat \<Rightarrow> string \<times> jsval list \<times> nat" where
  "add_join_order_items join [] st = st"
| "add_join_order_items join (order # os) (query, params, countOrderBy) =
     add_join_order_items join os
       (query @ ''??.?? '' @ direction_text (ob_direction order),
        params @
          [case ob_table order of
             Some t \<Rightarrow> JStr t
           | None \<Rightarrow> (case leftTable join of None \<Rightarrow> JUndefined | Some l \<Rightarrow> JClass l),
           JStr (ob_field order)],
        Suc countOrderBy)"

fun add_join_orders :: "Join list \<Rightarrow> string \<times> jsval list \<times> nat \<Rightarrow> string \<times> jsval list \<times> nat" where
  "add_join_orders [] st = st"
| "add_join_orders (join # js) (query, params, countOrderBy) =
     add_join_orders js
       (case j_orderBy join of
          None \<Rightarrow> (query, params, countOrderBy)
        | Some os \<Rightarrow>
            (let query1 = (if \<not> str_includes query ''ORDER BY'' then query @ '' ORDER BY'' else query);
                 query2 = (if countOrderBy > 0 then query1 @ '', '' else query1)
             in add_join_order_items join os (query2, params, countOrderBy)))"

definition add_limit_offset ::
  "number option \<Rightarrow> number option \<Rightarrow> string \<times> jsval list \<Rightarrow> string \<times> jsval list" where
  "add_limit_offset lim off qp =
     (case lim of
        None \<Rightarrow> qp
      | Some l \<Rightarrow>
          (case off of
             None \<Rightarrow> (fst qp @ '' LIMIT ?'', snd qp @ [number_value l])
           | Some k \<Rightarrow>
               (fst qp @ '' LIMIT ?'' @ '' OFFSET ?'',
                snd qp @ [number_value l] @ [number_value k])))"

text \<open>
  The statement \<open>selectWhere\<close> sends, with the defaults of its destructuring
  (\<open>fields = []\<close>, \<open>joins = []\<close>) applied to the options.
\<close>

definition selectWhere_query ::
  "string \<Rightarrow> Where option \<Rightarrow> string list \<Rightarrow> Join list \<Rightarrow> number option \<Rightarrow> number option
     \<Rightarrow> OrderBy list option \<Rightarrow> string \<times> jsval list" where
  "selectWhere_query this_entityName whr flds jns lim off ord =
     (let qp1 = select_fields this_entityName flds;
          qp2 = (add_join_fields jns (fst qp1), snd qp1);
          qp3 = (fst qp2 @ '' FROM ??'', snd qp2 @ [JStr this_entityName]);
          qp4 = add_joins this_entityName jns qp3;
          qp5 = (case whr of
                   None \<Rightarrow> qp4
                 | Some w \<Rightarrow>
                     (case buildWhereClause this_entityName w (snd qp4) None of
                        (clause, params') \<Rightarrow> (fst qp4 @ '' WHERE '' @ clause, params')));
          qp6 = add_join_wheres this_entityName jns qp5;
          st7 = (case ord of
                   None \<Rightarrow> (fst qp6, snd qp6, 0)
                 | Some os \<Rightarrow>
                     (if length os > 0
                      then add_order_items this_entityName os (fst qp6 @ '' ORDER BY'', snd qp6, 0)
                      else (fst qp6, snd qp6, 0)));
          st8 = add_join_orders jns st7
      in add_limit_offset lim off (fst st8, fst (snd st8)))"

subsection \<open>selectWhere: demultiplexing the rows\<close>

fun copy_fields :: "props \<Rightarrow> string list \<Rightarrow> props \<Rightarrow> props" where
  "copy_fields row [] entityData = entityData"
| "copy_fields row (field # fs) entityData =
     copy_fields row fs
       (if has_prop row field then plain_assign entityData field (get_prop row field)
        else entityData)"

fun obj_props :: "jsval \<Rightarrow> props" where
  "obj_props (JObj ps) = ps"
| "obj_props v = []"

text \<open>
  The inner loop over \<open>join.fields\<close>; the state is \<open>(entityData, joinedData)\<close>, and
  \<open>joinedData[table][field] = v\<close> rewrites the sub-object stored under \<open>table\<close>.
  All three objects start as \<open>{}\<close> and are written by assignment only.
\<close>

fun extract_join_fields ::
  "string \<Rightarrow> props \<Rightarrow> string list \<Rightarrow> props \<times> props \<Rightarrow> props \<times> props" where
  "extract_join_fields table row [] st = st"
| "extract_join_fields table row (field # fs) (entityData, joinedData) =
     extract_join_fields table row fs
       (let rowKey = table @ ''_'' @ field
        in if has_prop row rowKey
           then (delete_prop entityData rowKey,
                 plain_assign joinedData table
                   (JObj (plain_assign (obj_props (get_prop joinedData table)) field
                            (get_prop row rowKey))))
           else (entityData, joinedData))"

fun extract_joins :: "props \<Rightarrow> Join list \<Rightarrow> props \<times> props \<Rightarrow> props \<times> props" where
  "extract_joins row [] st = st"
| "extract_joins row (join # js) (entityData, joinedData) =
     extract_joins row js
       (let joinedData1 = plain_assign joinedData (rightTable join) (JObj [])
        in case j_fields join of
             None \<Rightarrow> (entityData, joinedData1)
           | Some fs \<Rightarrow> extract_join_fields (rightTable join) row fs (entityData, joinedData1))"

definition row_attributes :: "props \<Rightarrow> string list \<Rightarrow> Join list \<Rightarrow> props" where
  "row_attributes row flds jns =
     (let entityData = copy_fields row (if length flds > 0 then flds else object_keys row) []
      in case extract_joins row jns (entityData, []) of
           (entityData', joinedData) \<Rightarrow> set_prop entityData' ''_joins'' (JObj joinedData))"

subsection \<open>The read and delete operations\<close>

definition selectWhere ::
  "runtime \<Rightarrow> 'db GenericDAO \<Rightarrow> Where option \<Rightarrow> SelectOptions option \<Rightarrow> 'db world
     \<Rightarrow> (props list, 'db) dao_result" where
  "selectWhere rt dao whr options w =
     (let flds = (case options of None \<Rightarrow> [] | Some opt \<Rightarrow> (case sel_fields opt of None \<Rightarrow> [] | Some fs \<Rightarrow> fs));
          jns = (case options of None \<Rightarrow> [] | Some opt \<Rightarrow> (case joins opt of None \<Rightarrow> [] | Some js \<Rightarrow> js));
          lim = (case options of None \<Rightarrow> None | Some opt \<Rightarrow> limit opt);
          off = (case options of None \<Rightarrow> None | Some opt \<Rightarrow> offset opt);
          ord = (case options of None \<Rightarrow> None | Some opt \<Rightarrow> orderBy opt);
          qp = selectWhere_query (entityName dao) whr flds jns lim off ord
      in case connection_query (connection dao) (fst qp) (snd qp) w of
           (Rejected e, w') \<Rightarrow> (Inl e, w')
         | (Header h, w') \<Rightarrow> (Inl (Error ''Unexpected query result format''), w')
         | (Rows rows, w') \<Rightarrow>
             (case map_throwing (new_Entity rt (EntityClass dao)) rows of
                Inl e \<Rightarrow> (Inl e, w')
              | Inr entities \<Rightarrow>
                  (map_throwing
                     (\<lambda>row. new_Entity rt (EntityClass dao) (row_attributes row flds jns)) rows,
                   w')))"

text \<open>
  \<open>selectAllPaginated(page, offset, options)\<close>: both arguments are numbers, and
  \<open>(page - 1) * offset\<close> is computed in the runtime's arithmetic.
\<close>

definition selectAllPaginated ::
  "runtime \<Rightarrow> 'db GenericDAO \<Rightarrow> number \<Rightarrow> number \<Rightarrow> Options option \<Rightarrow> 'db world
     \<Rightarrow> (props list, 'db) dao_result" where
  "selectAllPaginated rt dao page off options w =
     selectWhere rt dao
       (Some (WhereCondition ''id'' (JNum 0) (Some OpGt)))
       (Some \<lparr> joins = (case options of None \<Rightarrow> None | Some opt \<Rightarrow> joins opt),
                limit = Some off,
                offset = Some (js_mul (js_sub page (Num 1)) off),
                orderBy = (case options of None \<Rightarrow> None | Some opt \<Rightarrow> orderBy opt),
                sel_fields = None \<rparr>)
       w"

text \<open>\<open>query\<close>: the first component of what the connection resolves to.\<close>

definition query :: "'db GenericDAO \<Rightarrow> string \<Rightarrow> jsval list \<Rightarrow> 'db world \<Rightarrow> (reply, 'db) dao_result" where
  "query dao sql params w =
     (case connection_query (connection dao) sql params w of
        (Rejected e, w') \<Rightarrow> (Inl e, w')
      | (result, w') \<Rightarrow> (Inr result, w'))"

definition nl :: string where
  "nl = [CHR 0x0A]"

definition selectRandom_sql :: string where
  "selectRandom_sql = ''SELECT * FROM ??'' @ nl @ ''       ORDER BY RAND()'' @ nl @ ''       LIMIT 1''"

text \<open>
  \<open>const [result] = await this.query(...)\<close> takes the first row, \<open>undefined\<close> when there
  is none; \<open>"ID" in result\<close> throws a TypeError when \<open>result\<close> is not an object, and so
  does destructuring a result header, which is not iterable.
\<close>

definition in_undefined_message :: string where
  "in_undefined_message =
     ''Cannot use '' @ [CHR 0x27] @ ''in'' @ [CHR 0x27] @ '' operator to search for ''
       @ [CHR 0x27] @ ''ID'' @ [CHR 0x27] @ '' in undefined''"

definition selectRandom ::
  "runtime \<Rightarrow> 'db GenericDAO \<Rightarrow> 'db world \<Rightarrow> (props option, 'db) dao_result" where
  "selectRandom rt dao w =
     (case query dao selectRandom_sql [JStr (entityName dao)] w of
        (Inl e, w') \<Rightarrow> (Inl e, w')
      | (Inr (Rejected e), w') \<Rightarrow> (Inl e, w')
      | (Inr (Header h), w') \<Rightarrow> (Inl (TypeError ''object is not iterable''), w')
      | (Inr (Rows []), w') \<Rightarrow> (Inl (TypeError in_undefined_message), w')
      | (Inr (Rows (result # rest)), w') \<Rightarrow>
          (if has_prop result ''ID'' \<and> truthy (get_prop result ''ID'')
           then (case new_Entity rt (EntityClass dao) result of
                   Inl e \<Rightarrow> (Inl e, w')
                 | Inr entity \<Rightarrow> (Inr (Some entity), w'))
           else (Inr None, w')))"

text \<open>An array is truthy, empty or not.\<close>

definition array_truthy :: "'a list \<Rightarrow> bool" where
  "array_truthy xs = True"

definition deleteWhere ::
  "runtime \<Rightarrow> 'db GenericDAO \<Rightarrow> Where option \<Rightarrow> 'db world \<Rightarrow> (props list option, 'db) dao_result" where
  "deleteWhere rt dao whr w =
     (case selectWhere rt dao whr None w of
        (Inl e, w1) \<Rightarrow> (Inl e, w1)
      | (Inr rows, w1) \<Rightarrow>
          (case whr of
             Some cond \<Rightarrow>
               (if array_truthy rows then
                  (case buildWhereClause (entityName dao) cond [JStr (entityName dao)] None of
                     (clause, params) \<Rightarrow>
                       (case connection_query (connection dao) (''DELETE FROM ?? WHERE '' @ clause) params w1 of
                          (Rejected e, w2) \<Rightarrow> (Inl e, w2)
                        | (r, w2) \<Rightarrow> (Inr (Some rows), w2)))
                else (Inr None, w1))
           | None \<Rightarrow> (Inr None, w1)))"

subsection \<open>upsertAll\<close>

definition upsertAll_sql :: "string \<Rightarrow> string list \<Rightarrow> nat \<Rightarrow> string" where
  "upsertAll_sql this_entityName columns n =
     (let columnNames = join_str '', '' columns;
          valuePlaceholders =
            join_str '', ''
              (replicate n (''('' @ join_str '', '' (map (\<lambda>col. ''?'') columns) @ '')''));
          updateClauses =
            join_str '', '' (map (\<lambda>col. ''`'' @ col @ ''` = VALUES(`'' @ col @ ''`)'') columns)
      in nl @ ''        INSERT INTO `'' @ this_entityName @ ''` ('' @ columnNames @ '') '' @ nl
         @ ''        VALUES '' @ valuePlaceholders @ nl
         @ ''        ON DUPLICATE KEY UPDATE '' @ nl
         @ ''        '' @ updateClauses @ nl
         @ ''    '')"

definition upsertAll ::
  "runtime \<Rightarrow> 'db GenericDAO \<Rightarrow> props list \<Rightarrow> 'db world \<Rightarrow> (int list, 'db) dao_result" where
  "upsertAll rt dao entities w =
     (if length entities = 0 then (Inr [], w)
      else
        (let dbRecords = map (toDBRecord_of rt (EntityClass dao)) entities;
             columns = object_keys (hd dbRecords);
             vals = map (\<lambda>record. map (\<lambda>col. get_prop record col) columns) dbRecords;
             sql = upsertAll_sql (entityName dao) columns (length vals);
             flatValues = concat vals
         in case connection_query (connection dao) sql flatValues w of
              (Rejected e, w') \<Rightarrow> (Inl e, w')
            | (result, w') \<Rightarrow> (Inr [], w')))"

section \<open>The transaction coordinator (TransactionManager.runInTransaction)\<close>

text \<open>
  The pool, the connection and the callback are collaborators: each of their calls
  either succeeds or throws. One run calls each at most once, so an environment fixes
  the outcome of each call. The state of a run is the local variable \<open>connection\<close>
  (non-null or not) and the trace of the calls made.
\<close>

datatype tx_event = GetConnection | BeginTransaction | Callback | Commit | Rollback | Release

record 'a tx_env =
  getConnection_throws :: "error option"
  beginTransaction_throws :: "error option"
  callback_outcome :: "error + 'a"
  commit_throws :: "error option"
  rollback_throws :: "error option"
  release_throws :: "error option"

type_synonym tx_state = "bool \<times> tx_event list"

definition try_block :: "'a tx_env \<Rightarrow> tx_state \<Rightarrow> (error + 'a) \<times> tx_state" where
  "try_block env s =
     (case getConnection_throws env of
        Some e \<Rightarrow> (Inl e, (fst s, snd s @ [GetConnection]))
      | None \<Rightarrow>
          (case beginTransaction_throws env of
             Some e \<Rightarrow> (Inl e, (True, snd s @ [GetConnection, BeginTransaction]))
           | None \<Rightarrow>
               (case callback_outcome env of
                  Inl e \<Rightarrow> (Inl e, (True, snd s @ [GetConnection, BeginTransaction, Callback]))
                | Inr result \<Rightarrow>
                    (case commit_throws env of
                       Some e \<Rightarrow> (Inl e, (True, snd s @ [GetConnection, BeginTransaction, Callback, Commit]))
                     | None \<Rightarrow> (Inr result, (True, snd s @ [GetConnection, BeginTransaction, Callback, Commit]))))))"

definition catch_block :: "'a tx_env \<Rightarrow> error \<Rightarrow> tx_state \<Rightarrow> (error + 'a) \<times> tx_state" where
  "catch_block env err s =
     (if fst s then
        (case rollback_throws env of
           Some e \<Rightarrow> (Inl e, (fst s, snd s @ [Rollback]))
         | None \<Rightarrow> (Inl err, (fst s, snd s @ [Rollback])))
      else (Inl err, s))"

definition finally_block :: "'a tx_env \<Rightarrow> (error + 'a) \<Rightarrow> tx_state \<Rightarrow> (error + 'a) \<times> tx_state" where
  "finally_block env outcome s =
     (if fst s then
        (case release_throws env of
           Some e \<Rightarrow> (Inl e, (fst s, snd s @ [Release]))
         | None \<Rightarrow> (outcome, (fst s, snd s @ [Release])))
      else (outcome, s))"

definition runInTransaction :: "'a tx_env \<Rightarrow> (error + 'a) \<times> tx_event list" where
  "runInTransaction env =
     (case try_block env (False, []) of
        (Inr result, s1) \<Rightarrow>
          (case finally_block env (Inr result) s1 of (outcome, s2) \<Rightarrow> (outcome, snd s2))
      | (Inl err, s1) \<Rightarrow>
          (case catch_block env err s1 of
             (outcome, s2) \<Rightarrow>
               (case finally_block env outcome s2 of (outcome', s3) \<Rightarrow> (outcome', snd s3))))"

section \<open>A reference instance of the runtime's dates\<close>

text \<open>
  Node's \<open>Date\<close> on the inputs the examples below use. \<open>toISOString\<close> renders the time
  value in UTC. The \<open>Date\<close> constructor, given a string in the storage format
  \<open>YYYY-MM-DD HH:MM:SS\<close> (no \<open>T\<close>, no zone designator), reads it as local time;
  \<open>tz\<close> is the local zone's offset from UTC in minutes, east positive. Strings in other
  formats are outside this instance and answered with an Invalid Date. The calendar
  arithmetic is the proleptic Gregorian one, on days since 1970-01-01.
\<close>

definition days_from_civil :: "int \<Rightarrow> int \<Rightarrow> int \<Rightarrow> int" where
  "days_from_civil y m d =
     (let y' = (if m \<le> 2 then y - 1 else y);
          era = y' div 400;
          yoe = y' mod 400;
          doy = (153 * (if m > 2 then m - 3 else m + 9) + 2) div 5 + d - 1;
          doe = yoe * 365 + yoe div 4 - yoe div 100 + doy
      in era * 146097 + doe - 719468)"

definition civil_from_days :: "int \<Rightarrow> int \<times> int \<times> int" where
  "civil_from_days z =
     (let z' = z + 719468;
          era = z' div 146097;
          doe = z' mod 146097;
          yoe = (doe - doe div 1460 + doe div 36524 - doe div 146096) div 365;
          doy = doe - (365 * yoe + yoe div 4 - yoe div 100);
          mp = (5 * doy + 2) div 153;
          d = doy - (153 * mp + 2) div 5 + 1;
          m = (if mp < 10 then mp + 3 else mp - 9);
          y = yoe + era * 400
      in (if m \<le> 2 then y + 1 else y, m, d))"

definition decimal_digits :: string where
  "decimal_digits = ''0123456789''"

definition digit_char :: "int \<Rightarrow> char" where
  "digit_char n = decimal_digits ! nat n"

definition digit_val :: "char \<Rightarrow> int option" where
  "digit_val c = map_of (zip decimal_digits [0, 1, 2, 3, 4, 5, 6, 7, 8, 9]) c"

text \<open>The lowest \<open>width\<close> decimal digits of a non-negative number.\<close>

fun pad_digits :: "nat \<Rightarrow> int \<Rightarrow> string" where
  "pad_digits 0 n = []"
| "pad_digits (Suc width) n = pad_digits width (n div 10) @ [digit_char (n mod 10)]"

definition node_toISOString :: "int \<Rightarrow> string" where
  "node_toISOString t =
     (let days = t div 86400000;
          msOfDay = t mod 86400000
      in case civil_from_days days of
           (y, m, d) \<Rightarrow>
             (if 0 \<le> y \<and> y \<le> 9999 then pad_digits 4 y
              else (if y < 0 then ''-'' else ''+'') @ pad_digits 6 (abs y))
             @ ''-'' @ pad_digits 2 m @ ''-'' @ pad_digits 2 d
             @ ''T'' @ pad_digits 2 (msOfDay div 3600000)
             @ '':'' @ pad_digits 2 (msOfDay div 60000 mod 60)
             @ '':'' @ pad_digits 2 (msOfDay div 1000 mod 60)
             @ ''.'' @ pad_digits 3 (msOfDay mod 1000) @ ''Z'')"

fun digits_val :: "string \<Rightarrow> int \<Rightarrow> int option" where
  "digits_val [] acc = Some acc"
| "digits_val (c # cs) acc =
     (case digit_val c of None \<Rightarrow> None | Some v \<Rightarrow> digits_val cs (10 * acc + v))"

definition parse_storage_datetime :: "int \<Rightarrow> string \<Rightarrow> int option" where
  "parse_storage_datetime tz s =
     (if length s = 19 \<and> s ! 4 = CHR ''-'' \<and> s ! 7 = CHR ''-'' \<and> s ! 10 = CHR '' ''
         \<and> s ! 13 = CHR '':'' \<and> s ! 16 = CHR '':''
      then
        (case (digits_val (take 4 s) 0, digits_val (take 2 (drop 5 s)) 0,
               digits_val (take 2 (drop 8 s)) 0, digits_val (take 2 (drop 11 s)) 0,
               digits_val (take 2 (drop 14 s)) 0, digits_val (take 2 (drop 17 s)) 0) of
           (Some y, Some m, Some d, Some hh, Some mi, Some ss) \<Rightarrow>
             (if 1 \<le> m \<and> m \<le> 12 \<and> 1 \<le> d \<and> d \<le> 31 \<and> hh \<le> 23 \<and> mi \<le> 59 \<and> ss \<le> 59
              then Some (((days_from_civil y m d * 24 + hh) * 60 + mi - tz) * 60000 + ss * 1000)
              else None)
         | _ \<Rightarrow> None)
      else None)"

text \<open>
  \<open>new Date(v)\<close>: a string is parsed, a date is copied, and any other primitive is
  converted to a number of milliseconds (\<open>null\<close> to 0, \<open>true\<close> to 1, \<open>undefined\<close> to
  NaN). Objects, which would be converted to a string first, are outside this instance.
\<close>

definition node_new_Date :: "int \<Rightarrow> jsval \<Rightarrow> int option" where
  "node_new_Date tz v =
     (case v of
        JStr s \<Rightarrow> parse_storage_datetime tz s
      | JNum n \<Rightarrow> Some n
      | JDate t \<Rightarrow> t
      | JNull \<Rightarrow> Some 0
      | JBool b \<Rightarrow> Some (if b then 1 else 0)
      | _ \<Rightarrow> None)"

text \<open>A runtime whose dates are Node's in the zone \<open>tz\<close>; the JSON built-ins stay those of \<open>rt\<close>.\<close>

definition with_node_dates :: "int \<Rightarrow> runtime \<Rightarrow> runtime" where
  "with_node_dates tz rt = rt\<lparr> new_Date := node_new_Date tz, toISOString := node_toISOString \<rparr>"

text \<open>
  Node's JSON on the documents \<open>null\<close>, \<open>true\<close>, \<open>false\<close>, \<open>{}\<close> and \<open>[]\<close>. Other
  texts and other values are outside this instance: the texts are answered with a
  SyntaxError, the values written as \<open>null\<close>. \<open>node_runtime tz\<close> is the runtime with
  these built-ins and Node's dates in the zone \<open>tz\<close>.
\<close>

definition node_JSON_parse :: "string \<Rightarrow> jsval option" where
  "node_JSON_parse s =
     map_of [(''null'', JNull), (''true'', JBool True), (''false'', JBool False),
             (''{}'', JObj []), (''[]'', JArr [])] s"

definition node_JSON_stringify :: "jsval \<Rightarrow> string" where
  "node_JSON_stringify v =
     (if v = JBool True then ''true'' else if v = JBool False then ''false''
      else if v = JObj [] then ''{}'' else if v = JArr [] then ''[]'' else ''null'')"

definition node_runtime :: "int \<Rightarrow> runtime" where
  "node_runtime tz =
     \<lparr> JSON_parse = node_JSON_parse, JSON_stringify = node_JSON_stringify,
       new_Date = node_new_Date tz, toISOString = node_toISOString \<rparr>"

section \<open>Example instances\<close>

text \<open>
  The entity class of the README: a \<open>users\<close> table whose \<open>settings\<close> are declared JSON
  and whose \<open>createdAt\<close> is declared a date; a user name must have three characters.
\<close>

definition user_class :: entity_class where
  "user_class =
     \<lparr> EntityName = ''users'',
       getPropertyType =
         (\<lambda>key. if key = ''settings'' then Some PT_JSON
                else if key = ''createdAt'' then Some PT_DATE else None),
       validate =
         (\<lambda>this. case get_prop this ''username'' of
                   JStr s \<Rightarrow>
                     if length s < 3 then Invalid ''Username must be at least 3 characters.''
                     else Valid
                 | _ \<Rightarrow> Invalid ''Username must be at least 3 characters.'') \<rparr>"

text \<open>
  A transaction environment in which the pool, \<open>beginTransaction\<close>, \<open>commit\<close> and
  \<open>release\<close> succeed; the callback and the rollback behave as given.
\<close>

definition env_of :: "(error + int) \<Rightarrow> error option \<Rightarrow> int tx_env" where
  "env_of work rb =
     \<lparr> getConnection_throws = None, beginTransaction_throws = None,
       callback_outcome = work, commit_throws = None,
       rollback_throws = rb, release_throws = None \<rparr>"

text \<open>
  Two connections over a database without state: a \<open>users\<close> table with no rows and one
  with a single row, as the README's schema names its columns; and the DAO of the
  README over either.
\<close>

definition empty_table :: "unit connection" where
  "empty_table db sql params =
     (if starts_with sql ''SELECT'' then Rows [] else Header [(''affectedRows'', JNum 0)], db)"

definition one_user_table :: "unit connection" where
  "one_user_table db sql params =
     (if starts_with sql ''SELECT'' then Rows [[(''id'', JNum 1), (''username'', JStr ''alice'')]]
      else Header [(''affectedRows'', JNum 1)], db)"

definition users_dao :: "unit connection \<Rightarrow> unit GenericDAO" where
  "users_dao conn = \<lparr> connection = conn, entityName = ''users'', EntityClass = user_class \<rparr>"

text \<open>
  A join of \<open>posts\<close> whose own condition is a conjunction of two comparisons on
  columns of \<open>posts\<close>.
\<close>

definition posts_join :: Join where
  "posts_join =
     \<lparr> leftTable = None, rightTable = ''posts'', on_left = ''id'', on_right = ''userId'',
       j_fields = Some [''title''], j_type = Some LEFT,
       j_where = Some \<lparr> targetTable = None,
                         jw_where = WhereComposite ConnAND
                           [WhereCondition ''isActive'' (JNum 1) (Some OpEq),
                            WhereCondition ''title'' (JStr ''x'') (Some OpLIKE)] \<rparr>,
       j_orderBy = None \<rparr>"

text \<open>
  A user created at 2024-01-01T12:00:00.000Z (epoch second 1704110400), and a user whose
  date of creation is \<open>null\<close>.
\<close>

definition user_2024 :: props where
  "user_2024 =
     [(''id'', JNum 1), (''username'', JStr ''alice''),
      (''createdAt'', JDate (Some 1704110400000))]"

definition user_undated :: props where
  "user_undated = [(''id'', JNum 2), (''username'', JStr ''bob''), (''createdAt'', JNull)]"

section \<open>Properties of the condition compiler\<close>

lemma placeholders_from_nonq:
  "c \<noteq> CHR ''?'' \<Longrightarrow>
   placeholders_from run (xs @ c # ys) = placeholders_from run xs + placeholders_from 0 ys"
  by (induction xs arbitrary: run) auto

lemma placeholders_from_no_q: "CHR ''?'' \<notin> set s \<Longrightarrow> placeholders_from 0 s = 0"
  by (induction s) auto

lemma connector_text_no_q: "CHR ''?'' \<notin> set (connector_text conn)"
  by (cases conn) auto

lemma placeholder_count_sep:
  assumes "CHR ''?'' \<notin> set conn"
  shows "placeholder_count (x @ ('' '' @ conn @ '' '') @ y) = placeholder_count x + placeholder_count y"
proof -
  have "placeholders_from 0 (x @ CHR '' '' # (conn @ CHR '' '' # y))
        = placeholders_from 0 x + placeholders_from 0 (conn @ CHR '' '' # y)"
    by (rule placeholders_from_nonq) simp
  also have "placeholders_from 0 (conn @ CHR '' '' # y) = placeholders_from 0 conn + placeholders_from 0 y"
    by (rule placeholders_from_nonq) simp
  finally show ?thesis
    using assms by (simp add: placeholder_count_def placeholders_from_no_q)
qed

lemma placeholder_count_join:
  assumes "CHR ''?'' \<notin> set conn"
  shows "placeholder_count (join_str ('' '' @ conn @ '' '') clauses) = sum_list (map placeholder_count clauses)"
proof (induction "'' '' @ conn @ '' ''" clauses rule: join_str.induct)
  case 1
  show ?case by (simp add: placeholder_count_def)
next
  case (2 x)
  show ?case by simp
next
  case (3 x y ys)
  have "placeholder_count (x @ ('' '' @ conn @ '' '') @ join_str ('' '' @ conn @ '' '') (y # ys))
        = placeholder_count x + placeholder_count (join_str ('' '' @ conn @ '' '') (y # ys))"
    using assms by (rule placeholder_count_sep)
  with 3 show ?case by simp
qed

lemma placeholder_count_parens:
  "placeholder_count (''('' @ s @ '')'') = placeholder_count s"
proof -
  have "placeholders_from 0 (s @ CHR '')'' # []) = placeholders_from 0 s + placeholders_from 0 []"
    by (rule placeholders_from_nonq) simp
  then show ?thesis by (simp add: placeholder_count_def)
qed

text \<open>Every comparison leaf contributes three placeholders to the compiled text.\<close>

lemma build_counts:
  "placeholder_count (fst (buildWhereClause self w ps tn)) = 3 * length (comparisons w)"
  "sum_list (map placeholder_count (fst (buildWhereClause_map self ws ps)))
     = 3 * length (concat (map comparisons ws))"
proof (induction self w ps tn and self ws ps rule: buildWhereClause_buildWhereClause_map.induct)
  case (1 self conn preps params EntityName)
  obtain clauses params' where m: "buildWhereClause_map self preps params = (clauses, params')"
    by (cases "buildWhereClause_map self preps params")
  have "placeholder_count (''('' @ join_str ('' '' @ connector_text conn @ '' '') clauses @ '')'')
        = sum_list (map placeholder_count clauses)"
    by (simp only: placeholder_count_parens placeholder_count_join [OF connector_text_no_q])
  with 1 m show ?case by simp
next
  case (2 self fld val opr params EntityName)
  define operator where "operator = (case opr of None \<Rightarrow> OpEq | Some o' \<Rightarrow> o')"
  have "placeholder_count (if operator \<noteq> OpIN then ''??.?? '' @ operator_text operator @ '' ?''
          else ''??.?? '' @ operator_text operator @ '' (?)'') = 3"
    by (cases operator) (simp_all add: placeholder_count_def)
  then show ?case
    unfolding operator_def
    by (simp only: buildWhereClause.simps Let_def fst_conv comparisons.simps) simp
next
  case (3 self params)
  show ?case by simp
next
  case (4 self prep preps params)
  obtain clause params1 where a: "buildWhereClause self prep params None = (clause, params1)"
    by (cases "buildWhereClause self prep params None")
  obtain clauses params2 where b: "buildWhereClause_map self preps params1 = (clauses, params2)"
    by (cases "buildWhereClause_map self preps params1")
  from 4(1) a have "placeholder_count clause = 3 * length (comparisons prep)"
    by simp
  moreover from 4(2) [OF a [symmetric]] b
  have "sum_list (map placeholder_count clauses) = 3 * length (concat (map comparisons preps))"
    by simp
  ultimately show ?case using a b by simp
qed

lemma where_params_None:
  "where_params self None w = concat (map (leaf_params self) (comparisons w))"
  by (cases w) simp_all

text \<open>The parameters are appended to the caller's list, leaf by leaf, in pre-order.\<close>

lemma build_params:
  "snd (buildWhereClause self w ps tn) = ps @ where_params self tn w"
  "snd (buildWhereClause_map self ws ps)
     = ps @ concat (map (leaf_params self) (concat (map comparisons ws)))"
proof (induction self w ps tn and self ws ps rule: buildWhereClause_buildWhereClause_map.induct)
  case (1 self conn preps params EntityName)
  obtain clauses params' where m: "buildWhereClause_map self preps params = (clauses, params')"
    by (cases "buildWhereClause_map self preps params")
  with 1 show ?case by simp
next
  case (2 self fld val opr params EntityName)
  show ?case by (simp add: Let_def leaf_params_def)
next
  case (3 self params)
  show ?case by simp
next
  case (4 self prep preps params)
  obtain clause params1 where a: "buildWhereClause self prep params None = (clause, params1)"
    by (cases "buildWhereClause self prep params None")
  obtain clauses params2 where b: "buildWhereClause_map self preps params1 = (clauses, params2)"
    by (cases "buildWhereClause_map self preps params1")
  from 4(1) a have "params1 = params @ concat (map (leaf_params self) (comparisons prep))"
    by (simp add: where_params_None)
  moreover from 4(2) [OF a [symmetric]] b
  have "params2 = params1 @ concat (map (leaf_params self) (concat (map comparisons preps)))"
    by simp
  ultimately show ?case using a b by simp
qed

lemma map2_replicate: "map2 f (replicate (length xs) a) xs = map (f a) xs"
  by (induction xs) simp_all

lemma where_params_qualifiers:
  "where_params self tn w = concat (map2 leaf_params (qualifiers self tn w) (comparisons w))"
  by (cases w) (simp_all add: map2_replicate)

lemma qualifiers_length: "length (qualifiers self tn w) = length (comparisons w)"
  by (cases w) simp_all

lemma qualifiers_subset: "set (qualifiers self tn w) \<subseteq> {self} \<union> set_option tn"
  by (cases w) (auto split: option.splits)

lemma leaf_params_length: "length (concat (map (leaf_params t) ls)) = 3 * length ls"
  by (induction ls) (simp_all add: leaf_params_def)

lemma where_params_length: "length (where_params self tn w) = 3 * length (comparisons w)"
  by (cases w) (simp_all add: leaf_params_length, simp add: leaf_params_def)

text \<open>
  Claim C1. For every condition tree, whatever the parameter list it is compiled onto and
  whatever the qualifying table: the compiled fragment has three placeholders per
  comparison leaf; the parameter list grows by exactly as many entries as the fragment has
  placeholders; and the entries appended are, for the comparison leaves taken in pre-order
  from left to right, the triple of the leaf's qualifying table name, the leaf's field name
  and the leaf's value, in that order. The qualifying table names are those of
  \<open>qualifiers\<close>: each is the DAO's table or the table given to the compiler.
\<close>

theorem C1_placeholders_match_parameters:
  "placeholder_count (fst (buildWhereClause this_entityName w params table))
     = 3 * length (comparisons w)
   \<and> length (snd (buildWhereClause this_entityName w params table))
     = length params + placeholder_count (fst (buildWhereClause this_entityName w params table))
   \<and> snd (buildWhereClause this_entityName w params table)
     = params @ concat (map2 leaf_params (qualifiers this_entityName table w) (comparisons w))
   \<and> length (qualifiers this_entityName table w) = length (comparisons w)
   \<and> set (qualifiers this_entityName table w) \<subseteq> {this_entityName} \<union> set_option table"
proof -
  have a: "placeholder_count (fst (buildWhereClause this_entityName w params table))
             = 3 * length (comparisons w)"
    by (rule build_counts(1))
  have b: "snd (buildWhereClause this_entityName w params table)
             = params @ where_params this_entityName table w"
    by (rule build_params(1))
  have c: "length (snd (buildWhereClause this_entityName w params table))
             = length params + 3 * length (comparisons w)"
    by (simp add: b where_params_length)
  have d: "snd (buildWhereClause this_entityName w params table)
     = params @ concat (map2 leaf_params (qualifiers this_entityName table w) (comparisons w))"
    by (simp only: b where_params_qualifiers)
  from a c d qualifiers_length qualifiers_subset show ?thesis by simp
qed

text \<open>
  C1 on the condition \<open>(a = 1 AND (b IN (2, 3) OR c IS NULL))\<close> of a DAO on \<open>users\<close>,
  and on a single comparison compiled against \<open>posts\<close>.
\<close>

theorem C1_witness:
  "buildWhereClause ''users''
      (WhereComposite ConnAND
         [WhereCondition ''a'' (JNum 1) None,
          WhereComposite ConnOR
            [WhereCondition ''b'' (JArr [JNum 2, JNum 3]) (Some OpIN),
             WhereCondition ''c'' JNull (Some OpIS)]])
      [JStr ''users''] None
     = (''(??.?? = ? AND (??.?? IN (?) OR ??.?? IS ?))'',
        [JStr ''users'',
         JStr ''users'', JStr ''a'', JNum 1,
         JStr ''users'', JStr ''b'', JArr [JNum 2, JNum 3],
         JStr ''users'', JStr ''c'', JNull])
   \<and> placeholder_count ''(??.?? = ? AND (??.?? IN (?) OR ??.?? IS ?))'' = 9
   \<and> snd (buildWhereClause ''users'' (WhereCondition ''isActive'' (JNum 1) None) [] (Some ''posts''))
     = [JStr ''posts'', JStr ''isActive'', JNum 1]"
proof -
  let ?w = "WhereComposite ConnAND
         [WhereCondition ''a'' (JNum 1) None,
          WhereComposite ConnOR
            [WhereCondition ''b'' (JArr [JNum 2, JNum 3]) (Some OpIN),
             WhereCondition ''c'' JNull (Some OpIS)]]"
  have e: "fst (buildWhereClause ''users'' ?w [JStr ''users''] None)
             = ''(??.?? = ? AND (??.?? IN (?) OR ??.?? IS ?))''"
    by simp
  from C1_placeholders_match_parameters [of "''users''" ?w "[JStr ''users'']" None]
  have p: "snd (buildWhereClause ''users'' ?w [JStr ''users''] None)
     = [JStr ''users'',
         JStr ''users'', JStr ''a'', JNum 1,
         JStr ''users'', JStr ''b'', JArr [JNum 2, JNum 3],
         JStr ''users'', JStr ''c'', JNull]"
    and n: "placeholder_count (fst (buildWhereClause ''users'' ?w [JStr ''users''] None)) = 9"
    by (simp_all add: leaf_params_def)
  from C1_placeholders_match_parameters
         [of "''users''" "WhereCondition ''isActive'' (JNum 1) None" "[]" "Some ''posts''"]
  have q: "snd (buildWhereClause ''users'' (WhereCondition ''isActive'' (JNum 1) None) [] (Some ''posts''))
     = [JStr ''posts'', JStr ''isActive'', JNum 1]"
    by (simp add: leaf_params_def)
  from e p n q show ?thesis
    by (simp add: prod_eq_iff)
qed

section \<open>Properties of the entity lifecycle\<close>

subsection \<open>Objects as lists of properties\<close>

lemma delete_prop_filter: "delete_prop ps k = filter (\<lambda>p. fst p \<noteq> k) ps"
  by (induction ps) auto

lemma get_prop_map:
  "get_prop (map (\<lambda>(k, v). (k, g k v)) ps) k = (if has_prop ps k then g k (get_prop ps k) else JUndefined)"
  by (induction ps) auto

lemma get_prop_filter: "k \<noteq> k' \<Longrightarrow> get_prop (filter (\<lambda>p. fst p \<noteq> k') ps) k = get_prop ps k"
  by (induction ps) auto

lemma has_prop_filter: "k \<noteq> k' \<Longrightarrow> has_prop (filter (\<lambda>p. fst p \<noteq> k') ps) k = has_prop ps k"
  by (induction ps) (auto split: if_splits)

lemma distinct_map_filter_fst: "distinct (map fst ps) \<Longrightarrow> distinct (map fst (filter P ps))"
  by (induction ps) auto

lemma map_fst_coerce: "map fst (map (\<lambda>(k, v). (k, g k v)) ps) = map fst ps"
  by (induction ps) auto

lemma has_prop_map: "has_prop (map (\<lambda>(k, v). (k, g k v)) ps) k = has_prop ps k"
  by (induction ps) (auto split: if_splits)

lemma set_prop_new: "k \<notin> fst ` set this \<Longrightarrow> set_prop this k v = this @ [(k, v)]"
  by (induction this) auto

lemma get_prop_absent: "k \<notin> fst ` set ps \<Longrightarrow> get_prop ps k = JUndefined"
  by (induction ps) auto

lemma has_prop_keys: "has_prop ps k = (k \<in> fst ` set ps)"
  by (induction ps) auto

lemma has_prop_set_prop: "has_prop (set_prop ps k v) k' = (k' = k \<or> has_prop ps k')"
  by (induction ps) (auto split: if_splits)

lemma filter_absent: "\<not> has_prop ps k \<Longrightarrow> filter (\<lambda>p. fst p \<noteq> k) ps = ps"
  by (induction ps) (auto split: if_splits)

subsection \<open>Construction\<close>

text \<open>
  On attributes with distinct keys, as the own properties of an object are, of which
  \<open>__proto__\<close> (if there is one) holds neither an object nor \<open>null\<close>, \<open>init\<close> assigns
  every other attribute, converted by \<open>init_value\<close>, in order, and leaves the
  prototype alone.
\<close>

lemma init_value_undefined: "init_value rt pt JUndefined = JUndefined"
  by (simp add: init_value_def)

lemma init_own:
  assumes "distinct (map fst (own @ attrs))"
    and "\<not> replaces_prototype
             (init_value rt (getPropertyType cls ''__proto__'') (get_prop attrs ''__proto__''))"
  shows "init rt cls attrs (own, ClassPrototype)
     = (own @ map (\<lambda>(k, v). (k, init_value rt (getPropertyType cls k) v))
                (filter (\<lambda>p. fst p \<noteq> ''__proto__'') attrs),
        ClassPrototype)"
  using assms
proof (induction attrs arbitrary: own)
  case Nil
  show ?case by simp
next
  case (Cons p attrs)
  obtain k v where p: "p = (k, v)" by (cases p)
  show ?case
  proof (cases "k = ''__proto__''")
    case True
    from Cons.prems(1) p True have absent: "''__proto__'' \<notin> fst ` set attrs"
      by auto
    from Cons.prems(1) have d: "distinct (map fst (own @ attrs))"
      by auto
    have u: "\<not> replaces_prototype
               (init_value rt (getPropertyType cls ''__proto__'') (get_prop attrs ''__proto__''))"
      by (simp add: get_prop_absent [OF absent] init_value_undefined replaces_prototype_def)
    from Cons.prems(2) p True
    have keep: "\<not> replaces_prototype (init_value rt (getPropertyType cls ''__proto__'') v)"
      by simp
    from Cons.IH [OF d u] keep p True show ?thesis
      by (simp add: Let_def)
  next
    case False
    let ?v' = "init_value rt (getPropertyType cls k) v"
    from Cons.prems(1) p have notin: "k \<notin> fst ` set own"
      by auto
    from Cons.prems(1) p have d: "distinct (map fst ((own @ [(k, ?v')]) @ attrs))"
      by auto
    from Cons.prems(2) p False
    have u: "\<not> replaces_prototype
               (init_value rt (getPropertyType cls ''__proto__'') (get_prop attrs ''__proto__''))"
      by simp
    from Cons.IH [OF d u] notin p False show ?thesis
      by (simp add: Let_def set_prop_new)
  qed
qed

text \<open>An attribute named \<open>validate\<close> becomes an own property of the instance.\<close>

lemma init_keeps_validate:
  "has_prop attrs ''validate'' \<or> has_prop (fst this) ''validate''
   \<Longrightarrow> has_prop (fst (init rt cls attrs this)) ''validate''"
proof (induction attrs arbitrary: this)
  case Nil
  then show ?case by simp
next
  case (Cons p attrs)
  obtain k v where p: "p = (k, v)" by (cases p)
  obtain own proto where t: "this = (own, proto)" by (cases this)
  let ?next = "(if k = ''__proto__''
        then (own, if replaces_prototype
                       (init_value rt (case proto of ClassPrototype \<Rightarrow> getPropertyType cls k
                                                   | Replaced q \<Rightarrow> None) v)
                   then Replaced (init_value rt (case proto of ClassPrototype \<Rightarrow> getPropertyType cls k
                                                   | Replaced q \<Rightarrow> None) v)
                   else proto)
        else (set_prop own k (init_value rt (case proto of ClassPrototype \<Rightarrow> getPropertyType cls k
                                                   | Replaced q \<Rightarrow> None) v), proto))"
  have step: "init rt cls (p # attrs) this = init rt cls attrs ?next"
    by (simp add: p t Let_def)
  have "has_prop attrs ''validate'' \<or> has_prop (fst ?next) ''validate''"
    using Cons.prems p t by (auto simp: has_prop_set_prop split: if_splits)
  from Cons.IH [OF this] step show ?case by simp
qed

text \<open>
  With such an attribute the hook of the class is not run: whatever the runtime and the
  class, the constructor throws a TypeError.
\<close>

lemma validate_attribute_shadows_hook:
  assumes "has_prop attributes ''validate''"
  shows "\<exists>m. new_Entity rt cls attributes = Inl (TypeError m)"
proof -
  have "has_prop (fst (init rt cls attributes ([], ClassPrototype))) ''validate''"
    using assms by (simp add: init_keeps_validate)
  then show ?thesis
    by (simp add: new_Entity_def call_validate_def Let_def split: jsval.splits)
qed

text \<open>
  Claim C9, as amended. For every raw attribute map that has no attribute named
  \<open>validate\<close> and whose \<open>__proto__\<close>, if it has one, holds neither an object nor
  \<open>null\<close>: the validation hook is applied to the instance after \<open>init\<close> has assigned
  every attribute (converted where a kind is declared). If the hook answers with a
  string, the constructor throws an \<open>EntityValidationError\<close> whose message is exactly
  that string, and returns no entity; if it answers \<open>true\<close>, the constructor returns
  the initialised instance.
\<close>

theorem C9_validation_decides_construction:
  assumes "distinct (map fst attributes)"
    and "\<not> has_prop attributes ''validate''"
    and "\<not> replaces_prototype
             (init_value rt (getPropertyType cls ''__proto__'') (get_prop attributes ''__proto__''))"
    and "this = map (\<lambda>(k, v). (k, init_value rt (getPropertyType cls k) v))
                  (filter (\<lambda>p. fst p \<noteq> ''__proto__'') attributes)"
  shows "(validate cls this = Invalid msg \<longrightarrow>
            new_Entity rt cls attributes = Inl (EntityValidationError msg)
            \<and> message (EntityValidationError msg) = msg
            \<and> (\<forall>entity. new_Entity rt cls attributes \<noteq> Inr entity))
         \<and> (validate cls this = Valid \<longrightarrow> new_Entity rt cls attributes = Inr this)"
proof -
  have i: "init rt cls attributes ([], ClassPrototype) = (this, ClassPrototype)"
    using init_own [of "[]" attributes rt cls] assms(1,3,4) by simp
  have "\<not> has_prop this ''validate''"
    using assms(2) by (simp add: assms(4) has_prop_map has_prop_filter)
  then have "call_validate cls (this, ClassPrototype) = Inr (validate cls this)"
    by (simp add: call_validate_def)
  with i show ?thesis
    by (simp add: new_Entity_def new_EntityValidationError_def Let_def)
qed

text \<open>The hypotheses of C9 at the README's user class: a short and a valid user name.\<close>

theorem C9_witness:
  "(\<forall>rt. new_Entity rt user_class [(''id'', JNum 1), (''username'', JStr ''al'')]
      = Inl (EntityValidationError ''Username must be at least 3 characters.''))
   \<and> (\<forall>rt. new_Entity rt user_class [(''id'', JNum 1), (''username'', JStr ''alice'')]
      = Inr [(''id'', JNum 1), (''username'', JStr ''alice'')])"
proof -
  have d1: "distinct (map fst [(''id'', JNum 1), (''username'', JStr ''al'')])"
    and d2: "distinct (map fst [(''id'', JNum 1), (''username'', JStr ''alice'')])"
    by simp_all
  have n1: "\<not> has_prop [(''id'', JNum 1), (''username'', JStr ''al'')] ''validate''"
    and n2: "\<not> has_prop [(''id'', JNum 1), (''username'', JStr ''alice'')] ''validate''"
    by simp_all
  have q1: "\<And>rt. \<not> replaces_prototype
        (init_value rt (getPropertyType user_class ''__proto__'')
           (get_prop [(''id'', JNum 1), (''username'', JStr ''al'')] ''__proto__''))"
    and q2: "\<And>rt. \<not> replaces_prototype
        (init_value rt (getPropertyType user_class ''__proto__'')
           (get_prop [(''id'', JNum 1), (''username'', JStr ''alice'')] ''__proto__''))"
    by (simp_all add: init_value_def replaces_prototype_def)
  have i1: "\<And>rt. [(''id'', JNum 1), (''username'', JStr ''al'')]
      = map (\<lambda>(k, v). (k, init_value rt (getPropertyType user_class k) v))
          (filter (\<lambda>p. fst p \<noteq> ''__proto__'') [(''id'', JNum 1), (''username'', JStr ''al'')])"
    by (simp add: user_class_def init_value_def)
  have i2: "\<And>rt. [(''id'', JNum 1), (''username'', JStr ''alice'')]
      = map (\<lambda>(k, v). (k, init_value rt (getPropertyType user_class k) v))
          (filter (\<lambda>p. fst p \<noteq> ''__proto__'') [(''id'', JNum 1), (''username'', JStr ''alice'')])"
    by (simp add: user_class_def init_value_def)
  have v1: "validate user_class [(''id'', JNum 1), (''username'', JStr ''al'')]
      = Invalid ''Username must be at least 3 characters.''"
    by (simp add: user_class_def)
  have v2: "validate user_class [(''id'', JNum 1), (''username'', JStr ''alice'')] = Valid"
    by (simp add: user_class_def)
  from C9_validation_decides_construction
         [OF d1 n1 q1 i1, where msg = "''Username must be at least 3 characters.''"] v1
  have a: "\<And>rt. new_Entity rt user_class [(''id'', JNum 1), (''username'', JStr ''al'')]
      = Inl (EntityValidationError ''Username must be at least 3 characters.'')"
    by simp
  from C9_validation_decides_construction [OF d2 n2 q2 i2, where msg = "''x''"] v2
  have b: "\<And>rt. new_Entity rt user_class [(''id'', JNum 1), (''username'', JStr ''alice'')]
      = Inr [(''id'', JNum 1), (''username'', JStr ''alice'')]"
    by simp
  from a b show ?thesis by simp
qed

text \<open>
  The claim as stated fails on the attributes \<open>{username: "alice", validate: "x"}\<close>, in
  Node in the zone of Greenwich: on the fields assigned the hook of the user class
  answers \<open>true\<close>, yet the constructor throws a TypeError, the string \<open>"x"\<close> having
  taken the place of the hook. So it does on the attributes that
  \<open>JSON.parse('{"username": "alice", "__proto__": null}')\<close> returns, whose own property
  \<open>__proto__\<close> takes the prototype, and the hook with it, from the instance.
\<close>

theorem C9_counterexample:
  "validate user_class [(''username'', JStr ''alice''), (''validate'', JStr ''x'')] = Valid
   \<and> new_Entity (node_runtime 0) user_class
         [(''username'', JStr ''alice''), (''validate'', JStr ''x'')]
       = Inl (TypeError not_a_function_message)
   \<and> new_Entity (node_runtime 0) user_class [(''username'', JStr ''alice''), (''__proto__'', JNull)]
       = Inl (TypeError not_a_function_message)"
  by (simp add: new_Entity_def call_validate_def init_value_def user_class_def
        replaces_prototype_def Let_def)

subsection \<open>Serialization writes to its own copy only\<close>

lemma heap_set_last: "heap_set (h @ [obj]) (length h) key v = h @ [set_prop obj key v]"
  by (simp add: heap_set_def)

lemma heap_delete_last: "heap_delete (h @ [obj]) (length h) key = h @ [delete_prop obj key]"
  by (simp add: heap_delete_def)

lemma toDBRecord_loop_last:
  "toDBRecord_loop rt cls (length h) keys (h @ [obj]) = h @ [toDBRecord_fields rt cls keys obj]"
  by (induction keys arbitrary: obj) (simp_all add: heap_set_last)

lemma toDBRecord_eq:
  "this < length h \<Longrightarrow>
   toDBRecord rt cls h this
     = (length h, h @ [delete_prop (toDBRecord_fields rt cls (object_keys (h ! this)) (h ! this)) ''_joins''])"
  by (simp add: toDBRecord_def alloc_def Let_def toDBRecord_loop_last heap_delete_last nth_append)

lemma toDBRecord_of_eq:
  "toDBRecord_of rt cls entity
     = delete_prop (toDBRecord_fields rt cls (object_keys entity) entity) ''_joins''"
  by (simp add: toDBRecord_of_def toDBRecord_eq)

text \<open>
  Claim C10. \<open>toDBRecord\<close> called on an object of the store returns a newly allocated
  record and leaves every object that existed before the call as it was, the entity
  (with its \<open>_joins\<close>) among them: all coercions and the removal of \<open>_joins\<close> are
  writes to the copy, which ends up holding the serialized entity.
\<close>

theorem C10_toDBRecord_frame:
  assumes "this < length h"
  shows "fst (toDBRecord rt cls h this) = length h
     \<and> length (snd (toDBRecord rt cls h this)) = Suc (length h)
     \<and> take (length h) (snd (toDBRecord rt cls h this)) = h
     \<and> snd (toDBRecord rt cls h this) ! this = h ! this
     \<and> snd (toDBRecord rt cls h this) ! fst (toDBRecord rt cls h this)
         = toDBRecord_of rt cls (h ! this)"
proof -
  have r: "toDBRecord rt cls h this = (length h, h @ [toDBRecord_of rt cls (h ! this)])"
    using assms by (simp add: toDBRecord_eq toDBRecord_of_eq)
  have "(h @ [toDBRecord_of rt cls (h ! this)]) ! this = h ! this"
    using assms by (simp add: nth_append)
  then show ?thesis
    unfolding r by simp
qed

text \<open>
  The hypothesis of C10 at a store holding one user with an undefined \<open>email\<close> and a
  \<open>_joins\<close> map: the record has \<open>null\<close> and no \<open>_joins\<close>, the user still has both.
\<close>

theorem C10_witness:
  "\<forall>rt. fst (toDBRecord rt user_class
             [[(''id'', JNum 1), (''username'', JStr ''alice''), (''email'', JUndefined), (''_joins'', JObj [])]] 0) = 1
     \<and> snd (toDBRecord rt user_class
             [[(''id'', JNum 1), (''username'', JStr ''alice''), (''email'', JUndefined), (''_joins'', JObj [])]] 0) ! 0
         = [(''id'', JNum 1), (''username'', JStr ''alice''), (''email'', JUndefined), (''_joins'', JObj [])]
     \<and> snd (toDBRecord rt user_class
             [[(''id'', JNum 1), (''username'', JStr ''alice''), (''email'', JUndefined), (''_joins'', JObj [])]] 0) ! 1
         = [(''id'', JNum 1), (''username'', JStr ''alice''), (''email'', JNull)]"
proof
  fix rt
  have r: "snd (toDBRecord rt user_class
             [[(''id'', JNum 1), (''username'', JStr ''alice''), (''email'', JUndefined), (''_joins'', JObj [])]] 0) ! 1
         = [(''id'', JNum 1), (''username'', JStr ''alice''), (''email'', JNull)]"
    by (simp add: toDBRecord_eq object_keys_def toDBRecord_value_def user_class_def)
  show "fst (toDBRecord rt user_class
             [[(''id'', JNum 1), (''username'', JStr ''alice''), (''email'', JUndefined), (''_joins'', JObj [])]] 0) = 1
     \<and> snd (toDBRecord rt user_class
             [[(''id'', JNum 1), (''username'', JStr ''alice''), (''email'', JUndefined), (''_joins'', JObj [])]] 0) ! 0
         = [(''id'', JNum 1), (''username'', JStr ''alice''), (''email'', JUndefined), (''_joins'', JObj [])]
     \<and> snd (toDBRecord rt user_class
             [[(''id'', JNum 1), (''username'', JStr ''alice''), (''email'', JUndefined), (''_joins'', JObj [])]] 0) ! 1
         = [(''id'', JNum 1), (''username'', JStr ''alice''), (''email'', JNull)]"
    using C10_toDBRecord_frame [of 0
            "[[(''id'', JNum 1), (''username'', JStr ''alice''), (''email'', JUndefined), (''_joins'', JObj [])]]"
            rt user_class] r
    by simp
qed

section \<open>Properties of the transaction coordinator\<close>

lemma release_once:
  "getConnection_throws env = None \<Longrightarrow>
     count_list (snd (runInTransaction env)) Release = 1 \<and> last (snd (runInTransaction env)) = Release"
  by (simp add: runInTransaction_def try_block_def catch_block_def finally_block_def
           split: option.splits sum.splits)

text \<open>
  Claim C8. With a connection acquired and the transaction begun: when the callback
  returns and the commit succeeds, the calls are acquire, begin, callback, commit, release
  and the callback's result is returned; when the callback throws, the calls are acquire,
  begin, callback, rollback, release and the callback's error is thrown again; when the
  rollback throws as well, its error is the one thrown, after the release. Whenever a
  connection was acquired, on every path, it is released exactly once, as the last call.
\<close>

theorem C8_runInTransaction:
  "(getConnection_throws env = None \<and> beginTransaction_throws env = None \<and>
      callback_outcome env = Inr r \<and> commit_throws env = None \<and> release_throws env = None
     \<longrightarrow> runInTransaction env = (Inr r, [GetConnection, BeginTransaction, Callback, Commit, Release]))
   \<and> (getConnection_throws env = None \<and> beginTransaction_throws env = None \<and>
      callback_outcome env = Inl e \<and> rollback_throws env = None \<and> release_throws env = None
     \<longrightarrow> runInTransaction env = (Inl e, [GetConnection, BeginTransaction, Callback, Rollback, Release]))
   \<and> (getConnection_throws env = None \<and> beginTransaction_throws env = None \<and>
      callback_outcome env = Inl e \<and> rollback_throws env = Some e' \<and> release_throws env = None
     \<longrightarrow> runInTransaction env = (Inl e', [GetConnection, BeginTransaction, Callback, Rollback, Release]))
   \<and> (getConnection_throws env = None
     \<longrightarrow> count_list (snd (runInTransaction env)) Release = 1 \<and> last (snd (runInTransaction env)) = Release)"
proof -
  have a: "getConnection_throws env = None \<and> beginTransaction_throws env = None \<and>
      callback_outcome env = Inr r \<and> commit_throws env = None \<and> release_throws env = None
     \<longrightarrow> runInTransaction env = (Inr r, [GetConnection, BeginTransaction, Callback, Commit, Release])"
    by (simp add: runInTransaction_def try_block_def finally_block_def)
  have b: "getConnection_throws env = None \<and> beginTransaction_throws env = None \<and>
      callback_outcome env = Inl e \<and> rollback_throws env = None \<and> release_throws env = None
     \<longrightarrow> runInTransaction env = (Inl e, [GetConnection, BeginTransaction, Callback, Rollback, Release])"
    by (simp add: runInTransaction_def try_block_def catch_block_def finally_block_def)
  have c: "getConnection_throws env = None \<and> beginTransaction_throws env = None \<and>
      callback_outcome env = Inl e \<and> rollback_throws env = Some e' \<and> release_throws env = None
     \<longrightarrow> runInTransaction env = (Inl e', [GetConnection, BeginTransaction, Callback, Rollback, Release])"
    by (simp add: runInTransaction_def try_block_def catch_block_def finally_block_def)
  have d: "getConnection_throws env = None
     \<longrightarrow> count_list (snd (runInTransaction env)) Release = 1 \<and> last (snd (runInTransaction env)) = Release"
    using release_once by blast
  from a b c d show ?thesis by blast
qed

text \<open>
  The hypotheses of C8 at three environments: a callback returning 42, a callback
  throwing, and a callback throwing with a failing rollback.
\<close>

theorem C8_witness:
  "runInTransaction (env_of (Inr 42) None)
     = (Inr 42, [GetConnection, BeginTransaction, Callback, Commit, Release])
   \<and> runInTransaction (env_of (Inl (Error ''boom'')) None)
     = (Inl (Error ''boom''), [GetConnection, BeginTransaction, Callback, Rollback, Release])
   \<and> runInTransaction (env_of (Inl (Error ''boom'')) (Some (ExecutionError ''rollback failed'')))
     = (Inl (ExecutionError ''rollback failed''), [GetConnection, BeginTransaction, Callback, Rollback, Release])
   \<and> count_list (snd (runInTransaction (env_of (Inl (Error ''boom'')) (Some (ExecutionError ''rollback failed''))))) Release = 1"
  using C8_runInTransaction [of "env_of (Inr 42) None" 42 "Error ''x''" "Error ''y''"]
        C8_runInTransaction [of "env_of (Inl (Error ''boom'')) None" 0 "Error ''boom''" "Error ''y''"]
        C8_runInTransaction [of "env_of (Inl (Error ''boom'')) (Some (ExecutionError ''rollback failed''))" 0
           "Error ''boom''" "ExecutionError ''rollback failed''"]
  by (simp add: env_of_def)

section \<open>Properties of the data access object\<close>

text \<open>
  Claim C2. Compiled with a target-table override, a composite condition has every
  comparison below it qualified with the DAO's own table: the recursive call for the
  children of a composite does not pass the override on. For a DAO on \<open>users\<close>,
  the condition \<open>id > 0\<close> and the join of \<open>posts\<close> above, both comparisons of the
  join's condition are bound to \<open>users\<close>.
\<close>

theorem C2_override_dropped_below_composite:
  "snd (buildWhereClause this_entityName (WhereComposite conn preps) params (Some override))
     = params @ concat (map (leaf_params this_entityName) (concat (map comparisons preps)))
   \<and> selectWhere_query ''users'' (Some (WhereCondition ''id'' (JNum 0) (Some OpGt))) [] [posts_join]
       None None None
     = (''SELECT users.*, posts.title AS posts_title FROM ?? LEFT JOIN ?? ON ?? = ??''
          @ '' WHERE ??.?? > ? AND (??.?? = ? AND ??.?? LIKE ?)'',
        [JStr ''users'', JStr ''posts'', JStr ''users.id'', JStr ''posts.userId'',
         JStr ''users'', JStr ''id'', JNum 0,
         JStr ''users'', JStr ''isActive'', JNum 1, JStr ''users'', JStr ''title'', JStr ''x''])"
proof
  show "snd (buildWhereClause this_entityName (WhereComposite conn preps) params (Some override))
     = params @ concat (map (leaf_params this_entityName) (concat (map comparisons preps)))"
    by (simp only: build_params where_params.simps)
  show "selectWhere_query ''users'' (Some (WhereCondition ''id'' (JNum 0) (Some OpGt))) [] [posts_join]
       None None None
     = (''SELECT users.*, posts.title AS posts_title FROM ?? LEFT JOIN ?? ON ?? = ??''
          @ '' WHERE ??.?? > ? AND (??.?? = ? AND ??.?? LIKE ?)'',
        [JStr ''users'', JStr ''posts'', JStr ''users.id'', JStr ''posts.userId'',
         JStr ''users'', JStr ''id'', JNum 0,
         JStr ''users'', JStr ''isActive'', JNum 1, JStr ''users'', JStr ''title'', JStr ''x''])"
    by (simp add: selectWhere_query_def posts_join_def select_fields_def join_select_fields_def
          add_limit_offset_def Let_def)
qed

subsection \<open>Pagination\<close>

lemma selectWhere_trace:
  "snd (snd (selectWhere rt dao whr options w))
     = snd w @ [selectWhere_query (entityName dao) whr
         (case options of None \<Rightarrow> [] | Some opt \<Rightarrow> (case sel_fields opt of None \<Rightarrow> [] | Some fs \<Rightarrow> fs))
         (case options of None \<Rightarrow> [] | Some opt \<Rightarrow> (case joins opt of None \<Rightarrow> [] | Some js \<Rightarrow> js))
         (case options of None \<Rightarrow> None | Some opt \<Rightarrow> limit opt)
         (case options of None \<Rightarrow> None | Some opt \<Rightarrow> offset opt)
         (case options of None \<Rightarrow> None | Some opt \<Rightarrow> orderBy opt)]"
  by (simp add: selectWhere_def connection_query_def Let_def split: prod.splits reply.splits sum.splits)

lemma selectWhere_query_limit_offset:
  "\<exists>sql params. selectWhere_query n whr flds jns (Some l) (Some k) ord
      = (sql @ '' LIMIT ? OFFSET ?'', params @ [number_value l, number_value k])"
proof -
  have "\<And>qp. add_limit_offset (Some l) (Some k) qp
           = (fst qp @ '' LIMIT ? OFFSET ?'', snd qp @ [number_value l, number_value k])"
    by (simp add: add_limit_offset_def)
  then show ?thesis
    unfolding selectWhere_query_def Let_def by blast
qed

lemma selectWhere_query_plain:
  "selectWhere_query n (Some (WhereCondition ''id'' (JNum 0) (Some OpGt))) [] [] (Some l) (Some k) None
     = (''SELECT '' @ n @ ''.* FROM ?? WHERE ??.?? > ? LIMIT ? OFFSET ?'',
        [JStr n, JStr n, JStr ''id'', JNum 0, number_value l, number_value k])"
  by (simp add: selectWhere_query_def select_fields_def add_limit_offset_def Let_def)

subsection \<open>The arithmetic of the offset\<close>

lemma bit_length_le: "n < 2 ^ k \<Longrightarrow> bit_length n \<le> k"
proof (induction k arbitrary: n)
  case 0
  then have "n \<le> 0" by simp
  then show ?case by (simp add: bit_length.simps)
next
  case (Suc k)
  show ?case
  proof (cases "n \<le> 0")
    case True
    then show ?thesis by (simp add: bit_length.simps)
  next
    case False
    from Suc.prems have "n div 2 < 2 ^ k" by simp
    then have "bit_length (n div 2) \<le> k" by (rule Suc.IH)
    with False show ?thesis
      by (subst bit_length.simps) simp
  qed
qed

text \<open>An integer below \<open>2^53\<close> in magnitude is a double, and arithmetic that stays there is exact.\<close>

lemma to_double_exact:
  assumes "abs x < 2 ^ 53"
  shows "to_double x = Num x"
proof -
  from assms have "bit_length (abs x) \<le> 53"
    by (rule bit_length_le)
  then have r: "round_magnitude (abs x) = abs x"
    by (simp add: round_magnitude_def)
  have "(2::int) ^ 53 < 2 ^ 1024"
    by (rule power_strict_increasing) simp_all
  with assms have "\<not> abs x \<ge> 2 ^ 1024"
    by linarith
  with r show ?thesis
    by (simp add: to_double_def Let_def)
qed

lemma offset_exact:
  assumes "1 \<le> page" and "page \<le> 2 ^ 53" and "abs ((page - 1) * pageSize) < 2 ^ 53"
  shows "js_mul (js_sub (Num page) (Num 1)) (Num pageSize) = Num ((page - 1) * pageSize)"
proof -
  from assms(1,2) have "abs (page - 1) < 2 ^ 53"
    by simp
  then have s: "to_double (page - 1) = Num (page - 1)"
    by (rule to_double_exact)
  have m: "to_double ((page - 1) * pageSize) = Num ((page - 1) * pageSize)"
    by (rule to_double_exact [OF assms(3)])
  show ?thesis
    by (simp only: js_sub.simps js_mul.simps s m)
qed

text \<open>
  Beyond that range the product is rounded: page \<open>2^53\<close> of pages of three rows starts
  at offset 27021597764222972, one less than \<open>(2^53 - 1) * 3\<close>.
\<close>

lemma offset_rounded_beyond_safe_integers:
  "js_mul (js_sub (Num 9007199254740992) (Num 1)) (Num 3) = Num 27021597764222972"
  by code_simp

text \<open>
  Claim C3. For every page number from 1 on and every page size,
  \<open>selectAllPaginated\<close> is \<open>selectWhere\<close> on the condition \<open>id > 0\<close> with the
  limit set to the page size and the offset to \<open>(page - 1) * pageSize\<close> as the
  runtime computes it; the one statement it sends ends in \<open>LIMIT ? OFFSET ?\<close> and its
  parameters end with the page size and that offset; without further options the
  statement is the one shown. The offset is the exact product \<open>(page - 1) * pageSize\<close>
  for pages up to \<open>2^53\<close> and products below \<open>2^53\<close> in magnitude.
\<close>

theorem C3_selectAllPaginated_limit_offset:
  assumes "1 \<le> page" and "to_double page = Num page" and "to_double pageSize = Num pageSize"
  shows "selectAllPaginated rt dao (Num page) (Num pageSize) options w
     = selectWhere rt dao (Some (WhereCondition ''id'' (JNum 0) (Some OpGt)))
         (Some \<lparr> joins = (case options of None \<Rightarrow> None | Some opt \<Rightarrow> joins opt),
                  limit = Some (Num pageSize),
                  offset = Some (js_mul (js_sub (Num page) (Num 1)) (Num pageSize)),
                  orderBy = (case options of None \<Rightarrow> None | Some opt \<Rightarrow> orderBy opt),
                  sel_fields = None \<rparr>) w
   \<and> (\<exists>sql params.
         snd (snd (selectAllPaginated rt dao (Num page) (Num pageSize) options w))
           = snd w @ [(sql @ '' LIMIT ? OFFSET ?'',
                      params @ [JNum pageSize,
                                number_value (js_mul (js_sub (Num page) (Num 1)) (Num pageSize))])])
   \<and> (page \<le> 2 ^ 53 \<and> abs ((page - 1) * pageSize) < 2 ^ 53 \<longrightarrow>
         js_mul (js_sub (Num page) (Num 1)) (Num pageSize) = Num ((page - 1) * pageSize)
         \<and> (\<exists>sql params.
               snd (snd (selectAllPaginated rt dao (Num page) (Num pageSize) options w))
                 = snd w @ [(sql @ '' LIMIT ? OFFSET ?'',
                            params @ [JNum pageSize, JNum ((page - 1) * pageSize)])]))
   \<and> (options = None \<longrightarrow>
         snd (snd (selectAllPaginated rt dao (Num page) (Num pageSize) options w))
           = snd w @ [(''SELECT '' @ entityName dao @ ''.* FROM ?? WHERE ??.?? > ? LIMIT ? OFFSET ?'',
                      [JStr (entityName dao), JStr (entityName dao), JStr ''id'', JNum 0,
                       JNum pageSize,
                       number_value (js_mul (js_sub (Num page) (Num 1)) (Num pageSize))])])"
proof -
  let ?offset = "js_mul (js_sub (Num page) (Num 1)) (Num pageSize)"
  have a: "selectAllPaginated rt dao (Num page) (Num pageSize) options w
     = selectWhere rt dao (Some (WhereCondition ''id'' (JNum 0) (Some OpGt)))
         (Some \<lparr> joins = (case options of None \<Rightarrow> None | Some opt \<Rightarrow> joins opt),
                  limit = Some (Num pageSize),
                  offset = Some ?offset,
                  orderBy = (case options of None \<Rightarrow> None | Some opt \<Rightarrow> orderBy opt),
                  sel_fields = None \<rparr>) w"
    by (simp add: selectAllPaginated_def)
  have b: "\<exists>sql params.
         snd (snd (selectAllPaginated rt dao (Num page) (Num pageSize) options w))
           = snd w @ [(sql @ '' LIMIT ? OFFSET ?'', params @ [JNum pageSize, number_value ?offset])]"
    unfolding a selectWhere_trace
    using selectWhere_query_limit_offset [where l = "Num pageSize" and k = ?offset] by simp
  have c: "page \<le> 2 ^ 53 \<and> abs ((page - 1) * pageSize) < 2 ^ 53 \<longrightarrow>
         ?offset = Num ((page - 1) * pageSize)
         \<and> (\<exists>sql params.
               snd (snd (selectAllPaginated rt dao (Num page) (Num pageSize) options w))
                 = snd w @ [(sql @ '' LIMIT ? OFFSET ?'',
                            params @ [JNum pageSize, JNum ((page - 1) * pageSize)])])"
  proof
    assume h: "page \<le> 2 ^ 53 \<and> abs ((page - 1) * pageSize) < 2 ^ 53"
    then have "page \<le> 2 ^ 53" and "abs ((page - 1) * pageSize) < 2 ^ 53"
      by blast+
    with assms(1) have e: "?offset = Num ((page - 1) * pageSize)"
      by (rule offset_exact)
    from b e show "?offset = Num ((page - 1) * pageSize)
         \<and> (\<exists>sql params.
               snd (snd (selectAllPaginated rt dao (Num page) (Num pageSize) options w))
                 = snd w @ [(sql @ '' LIMIT ? OFFSET ?'',
                            params @ [JNum pageSize, JNum ((page - 1) * pageSize)])])"
      by simp
  qed
  have d: "options = None \<longrightarrow>
         snd (snd (selectAllPaginated rt dao (Num page) (Num pageSize) options w))
           = snd w @ [(''SELECT '' @ entityName dao @ ''.* FROM ?? WHERE ??.?? > ? LIMIT ? OFFSET ?'',
                      [JStr (entityName dao), JStr (entityName dao), JStr ''id'', JNum 0,
                       JNum pageSize, number_value ?offset])]"
    unfolding a selectWhere_trace
    by (simp add: selectWhere_query_plain)
  from a b c d show ?thesis by blast
qed

text \<open>
  The hypotheses of C3 at pages 1 and 2 with ten rows a page: offsets 0 and 10.
\<close>

theorem C3_witness:
  "\<forall>rt. snd (snd (selectAllPaginated rt (users_dao one_user_table) (Num 1) (Num 10) None ((), [])))
       = [(''SELECT users.* FROM ?? WHERE ??.?? > ? LIMIT ? OFFSET ?'',
           [JStr ''users'', JStr ''users'', JStr ''id'', JNum 0, JNum 10, JNum 0])]
     \<and> snd (snd (selectAllPaginated rt (users_dao one_user_table) (Num 2) (Num 10) None ((), [])))
       = [(''SELECT users.* FROM ?? WHERE ??.?? > ? LIMIT ? OFFSET ?'',
           [JStr ''users'', JStr ''users'', JStr ''id'', JNum 0, JNum 10, JNum 10])]"
proof
  fix rt
  have p1: "(1::int) \<le> 1" and p2: "(1::int) \<le> 2"
    by simp_all
  have r1: "to_double 1 = Num 1" and r2: "to_double 2 = Num 2" and r10: "to_double 10 = Num 10"
    by (simp_all add: to_double_exact)
  have o1: "js_mul (js_sub (Num 1) (Num 1)) (Num 10) = Num 0"
    using offset_exact [of 1 10] by simp
  have o2: "js_mul (js_sub (Num 2) (Num 1)) (Num 10) = Num 10"
    using offset_exact [of 2 10] by simp
  note t1 = C3_selectAllPaginated_limit_offset
              [OF p1 r1 r10, of rt "users_dao one_user_table" None "((), [])"]
  note t2 = C3_selectAllPaginated_limit_offset
              [OF p2 r2 r10, of rt "users_dao one_user_table" None "((), [])"]
  from t1 [THEN conjunct2, THEN conjunct2, THEN conjunct2] o1
  have a: "snd (snd (selectAllPaginated rt (users_dao one_user_table) (Num 1) (Num 10) None ((), [])))
       = [(''SELECT users.* FROM ?? WHERE ??.?? > ? LIMIT ? OFFSET ?'',
           [JStr ''users'', JStr ''users'', JStr ''id'', JNum 0, JNum 10, JNum 0])]"
    by (simp add: users_dao_def)
  from t2 [THEN conjunct2, THEN conjunct2, THEN conjunct2] o2
  have b: "snd (snd (selectAllPaginated rt (users_dao one_user_table) (Num 2) (Num 10) None ((), [])))
       = [(''SELECT users.* FROM ?? WHERE ??.?? > ? LIMIT ? OFFSET ?'',
           [JStr ''users'', JStr ''users'', JStr ''id'', JNum 0, JNum 10, JNum 10])]"
    by (simp add: users_dao_def)
  from a b
  show "snd (snd (selectAllPaginated rt (users_dao one_user_table) (Num 1) (Num 10) None ((), [])))
       = [(''SELECT users.* FROM ?? WHERE ??.?? > ? LIMIT ? OFFSET ?'',
           [JStr ''users'', JStr ''users'', JStr ''id'', JNum 0, JNum 10, JNum 0])]
     \<and> snd (snd (selectAllPaginated rt (users_dao one_user_table) (Num 2) (Num 10) None ((), [])))
       = [(''SELECT users.* FROM ?? WHERE ??.?? > ? LIMIT ? OFFSET ?'',
           [JStr ''users'', JStr ''users'', JStr ''id'', JNum 0, JNum 10, JNum 10])]"
    by (rule conjI)
qed

subsection \<open>selectRandom and deleteWhere\<close>

lemma selectRandom_no_rows:
  assumes "fst (connection dao (fst w) selectRandom_sql [JStr (entityName dao)]) = Rows []"
  shows "fst (selectRandom rt dao w) = Inl (TypeError in_undefined_message)"
proof -
  obtain db' where "connection dao (fst w) selectRandom_sql [JStr (entityName dao)] = (Rows [], db')"
    using assms by (cases "connection dao (fst w) selectRandom_sql [JStr (entityName dao)]") simp
  then show ?thesis
    by (simp add: selectRandom_def query_def connection_query_def)
qed

lemma selectRandom_row_without_ID:
  assumes "fst (connection dao (fst w) selectRandom_sql [JStr (entityName dao)]) = Rows (row # rest)"
    and "\<not> has_prop row ''ID''"
  shows "fst (selectRandom rt dao w) = Inr None"
proof -
  obtain db' where
    "connection dao (fst w) selectRandom_sql [JStr (entityName dao)] = (Rows (row # rest), db')"
    using assms(1) by (cases "connection dao (fst w) selectRandom_sql [JStr (entityName dao)]") simp
  with assms(2) show ?thesis
    by (simp add: selectRandom_def query_def connection_query_def)
qed

text \<open>
  Claim C4. On a table without rows \<open>selectRandom\<close> throws a TypeError: the first
  row is \<open>undefined\<close> and \<open>"ID" in undefined\<close> is not defined. On a table whose
  rows name their key \<open>id\<close>, the row is fetched and \<open>null\<close> is returned.
\<close>

theorem C4_selectRandom_empty_table_throws:
  "selectRandom rt (users_dao empty_table) ((), [])
     = (Inl (TypeError in_undefined_message), ((), [(selectRandom_sql, [JStr ''users''])]))
   \<and> selectRandom rt (users_dao one_user_table) ((), [])
     = (Inr None, ((), [(selectRandom_sql, [JStr ''users''])]))"
  by (simp add: selectRandom_def query_def connection_query_def users_dao_def empty_table_def
        one_user_table_def selectRandom_sql_def nl_def)

text \<open>
  What \<open>deleteWhere\<close> returns once the rows are read: with a condition, the rows read,
  however many, after the DELETE went through; without one, \<open>null\<close> and no DELETE.
\<close>

lemma deleteWhere_with_condition:
  assumes "selectWhere rt dao (Some cond) None w = (Inr rows, w1)"
    and "buildWhereClause (entityName dao) cond [JStr (entityName dao)] None = (clause, params)"
    and "connection dao (fst w1) (''DELETE FROM ?? WHERE '' @ clause) params = (reply, db2)"
    and "\<forall>e. reply \<noteq> Rejected e"
  shows "deleteWhere rt dao (Some cond) w
           = (Inr (Some rows), (db2, snd w1 @ [(''DELETE FROM ?? WHERE '' @ clause, params)]))"
  using assms
  by (cases reply) (simp_all add: deleteWhere_def connection_query_def array_truthy_def)

lemma deleteWhere_without_condition:
  assumes "selectWhere rt dao None None w = (Inr rows, w1)"
  shows "deleteWhere rt dao None w = (Inr None, w1)"
  using assms by (simp add: deleteWhere_def)

text \<open>
  Claim C5. When no row matches the condition, \<open>deleteWhere\<close> reads (nothing),
  still sends the DELETE and returns the empty list, not \<open>null\<close>: the empty array
  passes the test \<open>rows && where\<close>.
\<close>

theorem C5_deleteWhere_nothing_to_delete:
  "deleteWhere rt (users_dao empty_table) (Some (WhereCondition ''id'' (JNum 5) None)) ((), [])
     = (Inr (Some []),
        ((), [(''SELECT users.* FROM ?? WHERE ??.?? = ?'', [JStr ''users'', JStr ''users'', JStr ''id'', JNum 5]),
              (''DELETE FROM ?? WHERE ??.?? = ?'', [JStr ''users'', JStr ''users'', JStr ''id'', JNum 5])]))"
  by (simp add: deleteWhere_def selectWhere_def selectWhere_query_def select_fields_def
        add_limit_offset_def connection_query_def users_dao_def empty_table_def array_truthy_def Let_def)

subsection \<open>upsertAll\<close>

lemma upsertAll_nonempty:
  "entities \<noteq> [] \<Longrightarrow>
   upsertAll rt dao entities w =
     (let dbRecords = map (toDBRecord_of rt (EntityClass dao)) entities;
          columns = object_keys (hd dbRecords);
          sql = upsertAll_sql (entityName dao) columns (length entities);
          flatValues = concat (map (\<lambda>record. map (\<lambda>col. get_prop record col) columns) dbRecords)
      in (case fst (connection dao (fst w) sql flatValues) of Rejected e \<Rightarrow> Inl e | _ \<Rightarrow> Inr [],
          (snd (connection dao (fst w) sql flatValues), snd w @ [(sql, flatValues)])))"
  by (simp add: upsertAll_def connection_query_def Let_def split: prod.splits reply.splits)

text \<open>
  Claim C6. \<open>upsertAll\<close> on the empty list returns the empty list and calls the
  connection not at all. On a non-empty list it sends exactly one statement, and
  returns the empty list unless the statement is rejected, in which case the rejection
  is thrown. In no case does it return an identifier.
\<close>

theorem C6_upsertAll_returns_no_identifiers:
  "(entities = [] \<longrightarrow> upsertAll rt dao entities w = (Inr [], w))
   \<and> (entities \<noteq> [] \<longrightarrow>
        (\<exists>sql params.
           snd (snd (upsertAll rt dao entities w)) = snd w @ [(sql, params)]
           \<and> fst (upsertAll rt dao entities w)
               = (case fst (connection dao (fst w) sql params) of Rejected e \<Rightarrow> Inl e | _ \<Rightarrow> Inr [])))
   \<and> (\<forall>ids. fst (upsertAll rt dao entities w) = Inr ids \<longrightarrow> ids = [])"
proof -
  have a: "entities = [] \<longrightarrow> upsertAll rt dao entities w = (Inr [], w)"
    by (simp add: upsertAll_def)
  have b: "entities \<noteq> [] \<longrightarrow>
        (\<exists>sql params.
           snd (snd (upsertAll rt dao entities w)) = snd w @ [(sql, params)]
           \<and> fst (upsertAll rt dao entities w)
               = (case fst (connection dao (fst w) sql params) of Rejected e \<Rightarrow> Inl e | _ \<Rightarrow> Inr []))"
    by (simp add: upsertAll_nonempty Let_def)
  have c: "\<forall>ids. fst (upsertAll rt dao entities w) = Inr ids \<longrightarrow> ids = []"
  proof (cases "entities = []")
    case True
    then show ?thesis by (simp add: upsertAll_def)
  next
    case False
    then show ?thesis
      by (auto simp add: upsertAll_nonempty Let_def split: reply.splits)
  qed
  from a b c show ?thesis by blast
qed

text \<open>The hypotheses of C6 at the empty list and at a list of two users.\<close>

theorem C6_witness:
  "\<forall>rt. upsertAll rt (users_dao one_user_table) [] ((), []) = (Inr [], ((), []))
     \<and> fst (upsertAll rt (users_dao one_user_table)
              [[(''id'', JNum 1), (''username'', JStr ''alice'')], [(''id'', JNum 2), (''username'', JStr ''bob'')]]
              ((), [])) = Inr []
     \<and> length (snd (snd (upsertAll rt (users_dao one_user_table)
              [[(''id'', JNum 1), (''username'', JStr ''alice'')], [(''id'', JNum 2), (''username'', JStr ''bob'')]]
              ((), [])))) = 1"
proof
  fix rt
  define es where "es = [[(''id'', JNum 1), (''username'', JStr ''alice'')], [(''id'', JNum 2), (''username'', JStr ''bob'')]]"
  have ne: "es \<noteq> []" by (simp add: es_def)
  have r: "\<And>sql params.
      (case fst (connection (users_dao one_user_table) (fst ((), [])) sql params) of
         Rejected e \<Rightarrow> Inl e | _ \<Rightarrow> Inr ([]::int list)) = Inr []"
    by (simp add: users_dao_def one_user_table_def)
  from C6_upsertAll_returns_no_identifiers [of "[]" rt "users_dao one_user_table" "((), [])"]
  have a: "upsertAll rt (users_dao one_user_table) [] ((), []) = (Inr [], ((), []))"
    by simp
  note t = C6_upsertAll_returns_no_identifiers
         [of es rt "users_dao one_user_table" "((), [])", THEN conjunct2, THEN conjunct1, THEN mp, OF ne]
  from t r have b: "fst (upsertAll rt (users_dao one_user_table) es ((), [])) = Inr []"
    by (auto simp only: r)
  from t have c: "length (snd (snd (upsertAll rt (users_dao one_user_table) es ((), [])))) = 1"
    by auto
  from a b c
  show "upsertAll rt (users_dao one_user_table) [] ((), []) = (Inr [], ((), []))
     \<and> fst (upsertAll rt (users_dao one_user_table)
              [[(''id'', JNum 1), (''username'', JStr ''alice'')], [(''id'', JNum 2), (''username'', JStr ''bob'')]]
              ((), [])) = Inr []
     \<and> length (snd (snd (upsertAll rt (users_dao one_user_table)
              [[(''id'', JNum 1), (''username'', JStr ''alice'')], [(''id'', JNum 2), (''username'', JStr ''bob'')]]
              ((), [])))) = 1"
    unfolding es_def by blast
qed

section \<open>Serialization followed by hydration\<close>

text \<open>
  For an entity whose keys are distinct, \<open>toDBRecord\<close> maps every value through
  \<open>toDBRecord_value\<close> and drops \<open>_joins\<close>; the constructor then maps every value
  of the record through \<open>init_value\<close>.
\<close>

lemma get_prop_append_notin: "k \<notin> fst ` set pre \<Longrightarrow> get_prop (pre @ ps) k = get_prop ps k"
  by (induction pre) auto

lemma set_prop_append_notin:
  "k \<notin> fst ` set pre \<Longrightarrow> set_prop (pre @ (k, v) # rest) k v' = pre @ (k, v') # rest"
  by (induction pre) auto

lemma toDBRecord_fields_map:
  "distinct (map fst (pre @ rest)) \<Longrightarrow>
   toDBRecord_fields rt cls (map fst rest) (pre @ rest)
     = pre @ map (\<lambda>(k, v). (k, toDBRecord_value rt (getPropertyType cls k) v)) rest"
proof (induction rest arbitrary: pre)
  case Nil
  show ?case by simp
next
  case (Cons p rest)
  obtain k v where p: "p = (k, v)" by (cases p)
  from Cons.prems p have notin: "k \<notin> fst ` set pre"
    by auto
  let ?v' = "toDBRecord_value rt (getPropertyType cls k) v"
  have step: "set_prop (pre @ (k, v) # rest) k (toDBRecord_value rt (getPropertyType cls k) (get_prop (pre @ (k, v) # rest) k))
        = (pre @ [(k, ?v')]) @ rest"
    using notin by (simp add: get_prop_append_notin set_prop_append_notin)
  from Cons.prems p have d: "distinct (map fst ((pre @ [(k, ?v')]) @ rest))"
    by auto
  from Cons.IH [OF d] step p show ?case by simp
qed

text \<open>
  What a field holds after serialization and hydration: the two conversions composed.
\<close>

lemma round_trip_field:
  assumes "distinct (map fst entity)" and "has_prop entity key" and "key \<noteq> ''_joins''"
    and "\<not> has_prop entity ''__proto__''"
  shows "get_prop (fst (init rt cls (toDBRecord_of rt cls entity) ([], ClassPrototype))) key
     = init_value rt (getPropertyType cls key)
         (toDBRecord_value rt (getPropertyType cls key) (get_prop entity key))"
proof -
  let ?g = "\<lambda>k v. toDBRecord_value rt (getPropertyType cls k) v"
  let ?h = "\<lambda>k v. init_value rt (getPropertyType cls k) v"
  let ?coerced = "map (\<lambda>(k, v). (k, ?g k v)) entity"
  have rec: "toDBRecord_of rt cls entity = filter (\<lambda>p. fst p \<noteq> ''_joins'') ?coerced"
    using toDBRecord_fields_map [of "[]" entity rt cls] assms(1)
    by (simp add: toDBRecord_of_eq object_keys_def delete_prop_filter)
  have d: "distinct (map fst (filter (\<lambda>p. fst p \<noteq> ''_joins'') ?coerced))"
    by (rule distinct_map_filter_fst) (simp only: map_fst_coerce assms(1))
  have np: "\<not> has_prop (filter (\<lambda>p. fst p \<noteq> ''_joins'') ?coerced) ''__proto__''"
    using assms(4) by (simp add: has_prop_filter has_prop_map)
  then have u: "\<not> replaces_prototype
      (init_value rt (getPropertyType cls ''__proto__'')
         (get_prop (filter (\<lambda>p. fst p \<noteq> ''_joins'') ?coerced) ''__proto__''))"
    by (simp add: has_prop_keys get_prop_absent init_value_undefined replaces_prototype_def)
  have hyd: "fst (init rt cls (toDBRecord_of rt cls entity) ([], ClassPrototype))
     = map (\<lambda>(k, v). (k, ?h k v)) (filter (\<lambda>p. fst p \<noteq> ''_joins'') ?coerced)"
  proof -
    have d0: "distinct (map fst ([] @ filter (\<lambda>p. fst p \<noteq> ''_joins'') ?coerced))"
      using d by simp
    note i = init_own [of "[]" "filter (\<lambda>p. fst p \<noteq> ''_joins'') ?coerced" rt cls, OF d0 u]
    show ?thesis
      by (simp only: rec i filter_absent [OF np] append_Nil fst_conv)
  qed
  have hp: "has_prop (filter (\<lambda>p. fst p \<noteq> ''_joins'') ?coerced) key"
    using assms(2,3) by (simp add: has_prop_filter has_prop_map)
  have gp: "get_prop (filter (\<lambda>p. fst p \<noteq> ''_joins'') ?coerced) key = ?g key (get_prop entity key)"
    using assms(2,3) by (simp add: get_prop_filter get_prop_map)
  show ?thesis
    unfolding hyd by (simp only: get_prop_map hp gp if_True)
qed

text \<open>
  A declared JSON field holding an object comes back as it was wherever the runtime's
  \<open>JSON.parse\<close> inverts its \<open>JSON.stringify\<close> on that object.
\<close>

lemma json_field_round_trip:
  assumes "distinct (map fst entity)" and "has_prop entity key" and "key \<noteq> ''_joins''"
    and "\<not> has_prop entity ''__proto__''"
    and "getPropertyType cls key = Some PT_JSON"
    and "typeof_object (get_prop entity key)" and "get_prop entity key \<noteq> JNull"
    and "JSON_parse rt (JSON_stringify rt (get_prop entity key)) = Some (get_prop entity key)"
  shows "get_prop (fst (init rt cls (toDBRecord_of rt cls entity) ([], ClassPrototype))) key = get_prop entity key"
proof -
  have "get_prop entity key \<noteq> JUndefined"
    using assms(6) by auto
  with assms(5-8) show ?thesis
    unfolding round_trip_field [OF assms(1-4)]
    by (simp add: toDBRecord_value_def init_value_def)
qed

text \<open>
  A declared date field holding a valid date comes back as whatever date the runtime's
  \<open>Date\<close> constructor reads from the first nineteen characters of \<open>toISOString\<close>,
  the \<open>T\<close> replaced by a blank.
\<close>

lemma date_field_round_trip:
  assumes "distinct (map fst entity)" and "has_prop entity key" and "key \<noteq> ''_joins''"
    and "\<not> has_prop entity ''__proto__''"
    and "getPropertyType cls key = Some PT_DATE"
    and "get_prop entity key = JDate (Some t)"
    and "new_Date rt (JStr (replace_T (take 19 (toISOString rt t)))) = Some t'"
  shows "get_prop (fst (init rt cls (toDBRecord_of rt cls entity) ([], ClassPrototype))) key = JDate (Some t')"
  using assms(5-7)
  unfolding round_trip_field [OF assms(1-4)]
  by (simp add: toDBRecord_value_def init_value_def)

text \<open>
  A declared date field holding \<open>null\<close> does not come back as \<open>null\<close>: \<open>new Date(null)\<close>
  is the epoch, which is written to the record as a date.
\<close>

lemma null_date_field_round_trip:
  assumes "distinct (map fst entity)" and "has_prop entity key" and "key \<noteq> ''_joins''"
    and "\<not> has_prop entity ''__proto__''"
    and "getPropertyType cls key = Some PT_DATE"
    and "get_prop entity key = JNull"
    and "new_Date rt JNull = Some 0"
  shows "get_prop (fst (init rt cls (toDBRecord_of rt cls entity) ([], ClassPrototype))) key \<noteq> JNull"
  using assms(5-7)
  unfolding round_trip_field [OF assms(1-4)]
  by (simp add: toDBRecord_value_def init_value_def split: option.splits)

subsection \<open>Dates in the reference instance\<close>

lemma iso_2024: "node_toISOString 1704110400000 = ''2024-01-01T12:00:00.000Z''"
  by code_simp

lemma parse_2024_plus2: "parse_storage_datetime 120 ''2024-01-01 12:00:00'' = Some 1704103200000"
  by code_simp

lemma parse_2024_utc: "parse_storage_datetime 0 ''2024-01-01 12:00:00'' = Some 1704110400000"
  by code_simp

lemma iso_1970: "node_toISOString 0 = ''1970-01-01T00:00:00.000Z''"
  by code_simp

lemma parse_1970_utc: "parse_storage_datetime 0 ''1970-01-01 00:00:00'' = Some 0"
  by code_simp

text \<open>
  Claim C7. \<open>toDBRecord\<close> writes a date as its UTC wall-clock time without a zone, and
  the constructor reads that text back as local time. In a zone two hours east of
  Greenwich the user created at 12:00:00.000 UTC, serialized and hydrated again, was
  created two hours earlier; in the zone of Greenwich the round trip returns the user.
  In any zone, the user whose date of creation is \<open>null\<close> is serialized with the
  epoch as that date, and in the zone of Greenwich hydrated with it.
\<close>

theorem C7_date_round_trip_shifts_by_zone:
  "toDBRecord_of (with_node_dates 120 rt) user_class user_2024
     = [(''id'', JNum 1), (''username'', JStr ''alice''), (''createdAt'', JStr ''2024-01-01 12:00:00'')]
   \<and> new_Entity (with_node_dates 120 rt) user_class (toDBRecord_of (with_node_dates 120 rt) user_class user_2024)
     = Inr [(''id'', JNum 1), (''username'', JStr ''alice''), (''createdAt'', JDate (Some 1704103200000))]
   \<and> new_Entity (with_node_dates 0 rt) user_class (toDBRecord_of (with_node_dates 0 rt) user_class user_2024)
     = Inr user_2024
   \<and> toDBRecord_of (with_node_dates tz rt) user_class user_undated
     = [(''id'', JNum 2), (''username'', JStr ''bob''), (''createdAt'', JStr ''1970-01-01 00:00:00'')]
   \<and> new_Entity (with_node_dates 0 rt) user_class (toDBRecord_of (with_node_dates 0 rt) user_class user_undated)
     = Inr [(''id'', JNum 2), (''username'', JStr ''bob''), (''createdAt'', JDate (Some 0))]"
proof -
  have r: "\<And>tz. toDBRecord_of (with_node_dates tz rt) user_class user_2024
     = [(''id'', JNum 1), (''username'', JStr ''alice''), (''createdAt'', JStr ''2024-01-01 12:00:00'')]"
    by (simp add: toDBRecord_of_eq user_2024_def object_keys_def toDBRecord_value_def user_class_def
          with_node_dates_def iso_2024)
  have a: "new_Entity (with_node_dates 120 rt) user_class
             [(''id'', JNum 1), (''username'', JStr ''alice''), (''createdAt'', JStr ''2024-01-01 12:00:00'')]
     = Inr [(''id'', JNum 1), (''username'', JStr ''alice''), (''createdAt'', JDate (Some 1704103200000))]"
    by (simp add: new_Entity_def call_validate_def init_value_def user_class_def with_node_dates_def
          node_new_Date_def replaces_prototype_def Let_def parse_2024_plus2)
  have b: "new_Entity (with_node_dates 0 rt) user_class
             [(''id'', JNum 1), (''username'', JStr ''alice''), (''createdAt'', JStr ''2024-01-01 12:00:00'')]
     = Inr user_2024"
    by (simp add: new_Entity_def call_validate_def init_value_def user_class_def with_node_dates_def
          node_new_Date_def replaces_prototype_def Let_def parse_2024_utc user_2024_def)
  have u: "\<And>tz. toDBRecord_of (with_node_dates tz rt) user_class user_undated
     = [(''id'', JNum 2), (''username'', JStr ''bob''), (''createdAt'', JStr ''1970-01-01 00:00:00'')]"
    by (simp add: toDBRecord_of_eq user_undated_def object_keys_def toDBRecord_value_def user_class_def
          with_node_dates_def node_new_Date_def iso_1970)
  have c: "new_Entity (with_node_dates 0 rt) user_class
             [(''id'', JNum 2), (''username'', JStr ''bob''), (''createdAt'', JStr ''1970-01-01 00:00:00'')]
     = Inr [(''id'', JNum 2), (''username'', JStr ''bob''), (''createdAt'', JDate (Some 0))]"
    by (simp add: new_Entity_def call_validate_def init_value_def user_class_def with_node_dates_def
          node_new_Date_def replaces_prototype_def Let_def parse_1970_utc)
  from r a b u c show ?thesis by simp
qed

end
